theory Spec2Isabelle
  imports Main "HOL-Library.Sublist"
begin

section \<open>Go values\<close>

text \<open>
  A Go \<open>error\<close> value is represented by the text its \<open>Error()\<close> method returns; the
  \<open>error\<close> interface holding \<open>nil\<close> is \<open>None\<close> of \<open>error option\<close>. The handler only
  ever inspects that text (\<open>strings.Contains(err.Error(), ...)\<close>) or formats it
  (\<open>%v\<close>).
\<close>

datatype error = Err string

fun Error :: "error \<Rightarrow> string" where
  "Error (Err s) = s"

text \<open>
  \<open>fmt.Errorf\<close> with a format that has no verb but the ones written out below.
\<close>

definition Errorf :: "string \<Rightarrow> error" where
  "Errorf s = Err s"

text \<open>
  The values \<open>encoding/json\<close> stores in an \<open>any\<close>: \<open>nil\<close>, \<open>bool\<close>, \<open>float64\<close>,
  \<open>string\<close>, \<open>[]any\<close> and \<open>map[string]any\<close>; the handler also passes an \<open>error\<close> to
  the logger as an \<open>any\<close>. Floating point numbers are not interpreted.
\<close>

typedecl float64

datatype any =
    AnyNil
  | AnyBool bool
  | AnyFloat64 float64
  | AnyString string
  | AnySlice "any list"
  | AnyMap "string \<Rightarrow> any option"
  | AnyError error

text \<open>Indexing a \<open>map[string]any\<close>: a missing key gives the zero value \<open>nil\<close>.\<close>

definition index :: "(string \<rightharpoonup> any) \<Rightarrow> string \<Rightarrow> any" where
  "index m k = (case m k of None \<Rightarrow> AnyNil | Some v \<Rightarrow> v)"

text \<open>\<open>func getString(v any) string { s, _ := v.(string); return s }\<close>\<close>

fun getString :: "any \<Rightarrow> string" where
  "getString (AnyString s) = s"
| "getString _ = []"

text \<open>\<open>type PubSubMessage struct { Data []byte; Attributes map[string]string }\<close>\<close>

record PubSubMessage =
  Data :: string
  Attributes :: "string \<rightharpoonup> string"

section \<open>Strings\<close>

text \<open>
  \<open>strings.Contains(s, substr)\<close>: \<open>substr\<close> occurs in \<open>s\<close> as a contiguous block.
\<close>

fun Contains :: "string \<Rightarrow> string \<Rightarrow> bool" where
  "Contains [] substr = (substr = [])"
| "Contains (c # cs) substr = (prefix substr (c # cs) \<or> Contains cs substr)"

text \<open>\<open>strings.HasPrefix(s, p)\<close>\<close>

definition HasPrefix :: "string \<Rightarrow> string \<Rightarrow> bool" where
  "HasPrefix s p = prefix p s"

text \<open>
  \<open>strings.ToUpper\<close>. The library scans the bytes of the string: if all of them are
  below \<open>utf8.RuneSelf\<close> (\<open>0x80\<close>) every byte in \<open>'a'..'z'\<close> is lowered by
  \<open>'a' - 'A'\<close>; otherwise the result is \<open>strings.Map(unicode.ToUpper, s)\<close>, which
  needs the Unicode case tables and is a parameter of the model (\<open>unicode_ToUpper\<close>
  below).
\<close>

definition isASCII :: "string \<Rightarrow> bool" where
  "isASCII s = list_all (\<lambda>c. (of_char c :: nat) < 128) s"

definition upper_byte :: "char \<Rightarrow> char" where
  "upper_byte c =
     (let n = (of_char c :: nat)
      in if 97 \<le> n \<and> n \<le> 122 then char_of (n - 32) else c)"

section \<open>The process and its collaborators\<close>

text \<open>
  The leveled calls on the request logger, the calls of the Slack client and the
  lines written with \<open>log.Printf\<close> are the observable effects of the service; they
  are recorded, in order, in the \<open>events\<close> of the world. So is every entry into
  \<open>SendMessage\<close>, with its arguments (\<open>SendMessageCall\<close>): it is no effect of the
  program, it only records that the call was made.
\<close>

datatype level = DEBUG | INFO | WARNING | ERROR

datatype event =
    Log level string "any list"
  | Printf string
  | AuthTest string
  | PostMessage string string
  | SendMessageCall string string

text \<open>The options of \<open>logger.New\<close> that \<open>getLogger\<close> passes.\<close>

datatype logger_Option =
    WithInvoker string
  | WithLogName string
  | WithCommonLabels "string \<Rightarrow> string option"
  | WithStdoutOnly

record CloudLogger =
  cfg_stdoutOnly :: bool
  cfg_invoker :: string
  cfg_logName :: string
  cfg_commonLabels :: "string \<rightharpoonup> string"

text \<open>
  The state of the process: its environment, the package variables of the service
  (\<open>slackClient\<close>, \<open>isSlackEnabled\<close>, \<open>appLogger\<close>, \<open>loggerInitOnce\<close>), the state of
  the Slack service behind the client, and the events so far. A \<open>*slack.Client\<close> is
  \<open>None\<close> when \<open>nil\<close> and otherwise holds the token it was built with.
\<close>

record 's world =
  environ :: "string \<rightharpoonup> string"
  slackClient :: "string option"
  isSlackEnabled :: bool
  appLogger :: "CloudLogger option"
  loggerInitOnce :: bool
  slack :: 's
  events :: "event list"

text \<open>
  What the libraries and services outside the repository do:
  \<^item> \<open>unicode_ToUpper\<close>: \<open>strings.Map(unicode.ToUpper, s)\<close>;
  \<^item> \<open>json_Unmarshal\<close>: \<open>json.Unmarshal(data, &payload)\<close> for a
    \<open>map[string]any\<close>, an error or the decoded map (a \<open>nil\<close> map reads as the empty one);
  \<^item> \<open>json_Marshal\<close>: \<open>json.Marshal(v)\<close>;
  \<^item> \<open>godotenv_Load\<close>: the environment after \<open>godotenv.Load()\<close>;
  \<^item> \<open>logging_remote\<close>: whether the Cloud Logging sink can be built: an error, or
    whether a project id resolves;
  \<^item> \<open>slack_AuthTest\<close>, \<open>slack_PostMessage\<close>: the Slack service as a state machine;
    the arguments are its state, the client's token and the call's arguments.
\<close>

record 's ext =
  unicode_ToUpper :: "string \<Rightarrow> string"
  json_Unmarshal :: "string \<Rightarrow> error + (string \<rightharpoonup> any)"
  json_Marshal :: "any \<Rightarrow> error + string"
  godotenv_Load :: "(string \<rightharpoonup> string) \<Rightarrow> (string \<rightharpoonup> string)"
  logging_remote :: "error + bool"
  slack_AuthTest :: "'s \<Rightarrow> string \<Rightarrow> error option \<times> 's"
  slack_PostMessage :: "'s \<Rightarrow> string \<Rightarrow> string \<Rightarrow> string \<Rightarrow> (error + string) \<times> 's"

definition ToUpper :: "('s, 'x) ext_scheme \<Rightarrow> string \<Rightarrow> string" where
  "ToUpper x s = (if isASCII s then map upper_byte s else unicode_ToUpper x s)"

text \<open>\<open>os.Getenv\<close>: the value of the variable, empty when it is not set.\<close>

definition Getenv :: "('s, 'w) world_scheme \<Rightarrow> string \<Rightarrow> string" where
  "Getenv w k = (case environ w k of None \<Rightarrow> [] | Some v \<Rightarrow> v)"

section \<open>Channel selection\<close>

definition chooseChannelForSeverity ::
  "('s, 'x) ext_scheme \<Rightarrow> ('s, 'w) world_scheme \<Rightarrow> string \<Rightarrow> string" where
  "chooseChannelForSeverity x w sev0 =
     (let sev = ToUpper x sev0;
          dflt = (let v = Getenv w ''SLACK_DEFAULT_CHANNEL_ID'' in if v \<noteq> [] then v else [])
      in if sev \<in> {''CRITICAL'', ''ALERT'', ''EMERGENCY'', ''ERROR''} then
           (let v = Getenv w ''SLACK_ERROR_CHANNEL_ID'' in if v \<noteq> [] then v else dflt)
         else if sev \<in> {''WARNING'', ''NOTICE''} then
           (let v = Getenv w ''SLACK_WARNING_CHANNEL_ID'' in if v \<noteq> [] then v else dflt)
         else dflt)"

section \<open>The cached logger\<close>

text \<open>
  A call that does not return normally: a panic (here only a \<open>nil\<close> dereference).
\<close>

datatype 'a exec = Done 'a | Panic

definition emit :: "event \<Rightarrow> ('s, 'w) world_scheme \<Rightarrow> ('s, 'w) world_scheme" where
  "emit e w = w\<lparr>events := events w @ [e]\<rparr>"

fun applyOption :: "logger_Option \<Rightarrow> CloudLogger \<Rightarrow> CloudLogger" where
  "applyOption (WithInvoker s) c = c\<lparr>cfg_invoker := s\<rparr>"
| "applyOption (WithLogName s) c = c\<lparr>cfg_logName := s\<rparr>"
| "applyOption (WithCommonLabels l) c = c\<lparr>cfg_commonLabels := l\<rparr>"
| "applyOption WithStdoutOnly c = c\<lparr>cfg_stdoutOnly := True\<rparr>"

text \<open>
  Modelled from the spec: \<open>logger.New\<close> (package \<open>logger\<close> is not under src/). It
  applies the recognised options; when stdout-only was requested, or no project id
  resolves, it falls back to the stdout sink instead of failing; it fails only when
  the remote sink cannot be built.
\<close>

definition logger_New :: "('s, 'x) ext_scheme \<Rightarrow> logger_Option list \<Rightarrow> error + CloudLogger" where
  "logger_New x opts =
     (let c = fold applyOption opts
                \<lparr>cfg_stdoutOnly = False, cfg_invoker = [], cfg_logName = [], cfg_commonLabels = Map.empty\<rparr>
      in if cfg_stdoutOnly c then Inr c
         else (case logging_remote x of
                 Inl e \<Rightarrow> Inl e
               | Inr resolved \<Rightarrow> Inr (c\<lparr>cfg_stdoutOnly := \<not> resolved\<rparr>)))"

text \<open>
  \<open>getLogger\<close>: \<open>loggerInitOnce.Do\<close> runs its function when the \<open>Once\<close> has not been
  done, and marks it done; calls are taken one at a time.
\<close>

definition getLogger ::
  "('s, 'x) ext_scheme \<Rightarrow> ('s, 'w) world_scheme \<Rightarrow> CloudLogger option \<times> ('s, 'w) world_scheme" where
  "getLogger x w =
     (let w' =
        (if loggerInitOnce w then w
         else
           (let lg =
              (case logger_New x
                      [WithInvoker ''ieos-slack-logs'',
                       WithLogName ''ieos-slack-logs'',
                       WithCommonLabels [''service'' \<mapsto> ''ieos-slack-logs'']] of
                 Inr lg \<Rightarrow> Some lg
               | Inl err \<Rightarrow>
                   (case logger_New x
                           [WithStdoutOnly,
                            WithInvoker ''ieos-slack-logs'',
                            WithLogName ''ieos-slack-logs'',
                            WithCommonLabels [''service'' \<mapsto> ''ieos-slack-logs'']] of
                      Inr lg \<Rightarrow> Some lg
                    | Inl _ \<Rightarrow> None))
            in w\<lparr>appLogger := lg, loggerInitOnce := True\<rparr>))
      in (appLogger w', w'))"

text \<open>
  Modelled from the spec: the request-scoped logger (package \<open>logger\<close> is not under
  src/). \<open>ForRequest\<close> returns a view bound to the logger, with an empty correlation
  context for a \<open>nil\<close> request; its leveled operations return no error. A leveled call
  is recorded as an event.
\<close>

datatype RequestLogger = RequestLogger CloudLogger

definition ForRequest :: "CloudLogger \<Rightarrow> RequestLogger" where
  "ForRequest lg = RequestLogger lg"

definition reqLog_call ::
  "RequestLogger \<Rightarrow> level \<Rightarrow> string \<Rightarrow> any list \<Rightarrow> ('s, 'w) world_scheme \<Rightarrow> ('s, 'w) world_scheme" where
  "reqLog_call reqLog lv msg data w = emit (Log lv msg data) w"

section \<open>The Slack client\<close>

definition testSlackAuth ::
  "('s, 'x) ext_scheme \<Rightarrow> ('s, 'w) world_scheme \<Rightarrow> error option \<times> ('s, 'w) world_scheme" where
  "testSlackAuth x w =
     (case slackClient w of
        None \<Rightarrow> (Some (Errorf ''slack client not initialized''), w)
      | Some client \<Rightarrow>
          (let (err, s') = slack_AuthTest x (slack w) client
           in (err, emit (AuthTest client) (w\<lparr>slack := s'\<rparr>))))"

text \<open>\<open>func init()\<close>, run once when the process starts.\<close>

definition init :: "('s, 'x) ext_scheme \<Rightarrow> ('s, 'w) world_scheme \<Rightarrow> ('s, 'w) world_scheme" where
  "init x w0 =
     (let w = w0\<lparr>environ := godotenv_Load x (environ w0)\<rparr>;
          botToken = Getenv w ''SLACK_BOT_TOKEN''
      in if botToken = [] then
           (emit (Printf ''SLACK_BOT_TOKEN environment variable is not set. Slack notifications will be disabled.'') w)
             \<lparr>isSlackEnabled := False\<rparr>
         else if \<not> HasPrefix botToken ''xoxb-'' then
           (emit (Printf ''SLACK_BOT_TOKEN appears to be invalid (should start with 'xoxb-'). Slack notifications will be disabled.'') w)
             \<lparr>isSlackEnabled := False\<rparr>
         else
           (let (r, w2) = testSlackAuth x (w\<lparr>slackClient := Some botToken\<rparr>)
            in case r of
                 Some err \<Rightarrow>
                   (emit (Printf (''Slack authentication failed. Slack notifications will be disabled: '' @ Error err)) w2)
                     \<lparr>isSlackEnabled := False\<rparr>
               | None \<Rightarrow>
                   emit (Printf ''Slack integration initialized successfully'')
                     (w2\<lparr>isSlackEnabled := True\<rparr>)))"

text \<open>
  \<open>SendMessage\<close>. \<open>PostMessage\<close> on a \<open>nil\<close> client dereferences it: a panic.
\<close>

definition SendMessage ::
  "('s, 'x) ext_scheme \<Rightarrow> string \<Rightarrow> string \<Rightarrow> ('s, 'w) world_scheme
     \<Rightarrow> (string \<times> error option) exec \<times> ('s, 'w) world_scheme" where
  "SendMessage x channelID message w0 =
     (let w = emit (SendMessageCall channelID message) w0
      in if \<not> isSlackEnabled w then
           (Done ([], Some (Errorf ''slack is not properly configured'')), w)
         else if channelID = [] then
           (Done ([], Some (Errorf ''channel ID is required'')), w)
         else
           (case slackClient w of
              None \<Rightarrow> (Panic, w)
            | Some client \<Rightarrow>
                (let (r, s') = slack_PostMessage x (slack w) client channelID message;
                     w' = emit (PostMessage channelID message) (w\<lparr>slack := s'\<rparr>)
                 in case r of
                      Inl err \<Rightarrow>
                        (if Contains (Error err) ''invalid_auth'' then
                           (Done ([], Some (Errorf ''slack authentication failed - please check your bot token and permissions'')), w')
                         else if Contains (Error err) ''channel_not_found'' then
                           (Done ([], Some (Errorf ''slack channel not found - please check your channel ID'')), w')
                         else if Contains (Error err) ''not_in_channel'' then
                           (Done ([], Some (Errorf ''slack bot is not in the specified channel - please invite the bot to the channel'')), w')
                         else
                           (Done ([], Some (Errorf (''failed to send slack message: '' @ Error err))), w'))
                    | Inr timestamp \<Rightarrow> (Done (timestamp, None), w'))))"

section \<open>The handler\<close>

text \<open>
  The message built in \<open>HandleLogAlert\<close> with a \<open>strings.Builder\<close>: \<open>"[%s] %s"\<close>, then
  \<open>"\n%s"\<close> for a text payload, then \<open>"\njson: %s"\<close> for a \<open>jsonPayload\<close> that is
  present, not \<open>nil\<close> and marshals.
\<close>

definition buildMessage ::
  "('s, 'x) ext_scheme \<Rightarrow> string \<Rightarrow> string \<Rightarrow> string \<Rightarrow> (string \<rightharpoonup> any) \<Rightarrow> string" where
  "buildMessage x severity logName text payload =
     (let b = ''['' @ severity @ ''] '' @ logName;
          b = (if text \<noteq> [] then b @ [CHR 0x0A] @ text else b);
          b = (case payload ''jsonPayload'' of
                 None \<Rightarrow> b
               | Some jp \<Rightarrow>
                   (if jp \<noteq> AnyNil then
                      (case json_Marshal x jp of
                         Inr compact \<Rightarrow> b @ [CHR 0x0A] @ ''json: '' @ compact
                       | Inl _ \<Rightarrow> b)
                    else b))
      in b)"

definition HandleLogAlert ::
  "('s, 'x) ext_scheme \<Rightarrow> PubSubMessage \<Rightarrow> ('s, 'w) world_scheme
     \<Rightarrow> error option exec \<times> ('s, 'w) world_scheme" where
  "HandleLogAlert x m w =
     (case getLogger x w of
        (None, w1) \<Rightarrow> (Panic, w1)
      | (Some lg, w1) \<Rightarrow>
          (let reqLog = ForRequest lg
           in if length (Data m) = 0 then
                (Done (Some (Errorf ''empty pubsub data'')),
                 reqLog_call reqLog WARNING ''empty pubsub data'' [] w1)
              else
                (case json_Unmarshal x (Data m) of
                   Inl err \<Rightarrow>
                     (Done (Some err),
                      reqLog_call reqLog ERROR ''failed to parse pubsub json'' [AnyError err] w1)
                 | Inr payload \<Rightarrow>
                     (let severity = getString (index payload ''severity'');
                          logName = getString (index payload ''logName'');
                          text = getString (index payload ''textPayload'');
                          severity = (if severity = [] then ''DEFAULT'' else severity);
                          message = buildMessage x severity logName text payload;
                          channelID = chooseChannelForSeverity x w1 severity
                      in case SendMessage x channelID message w1 of
                           (Panic, w2) \<Rightarrow> (Panic, w2)
                         | (Done (ts, Some err), w2) \<Rightarrow>
                             (Done (Some err),
                              reqLog_call reqLog ERROR ''slack send failed'' [AnyError err] w2)
                         | (Done (ts, None), w2) \<Rightarrow>
                             (Done None,
                              reqLog_call reqLog INFO ''slack message sent''
                                [AnyMap [''ts'' \<mapsto> AnyString ts, ''channel'' \<mapsto> AnyString channelID]]
                                w2)))))"

text \<open>
  Three fragments of the code above, named so that statements can refer to them:
  the severity after the \<open>DEFAULT\<close> substitution and the message that
  \<open>HandleLogAlert\<close> builds from a decoded payload, and the error that \<open>SendMessage\<close>
  returns for an error of \<open>PostMessage\<close>.
\<close>

definition severityOf :: "(string \<rightharpoonup> any) \<Rightarrow> string" where
  "severityOf payload =
     (let severity = getString (index payload ''severity'')
      in if severity = [] then ''DEFAULT'' else severity)"

definition messageOf :: "('s, 'x) ext_scheme \<Rightarrow> (string \<rightharpoonup> any) \<Rightarrow> string" where
  "messageOf x payload =
     buildMessage x (severityOf payload) (getString (index payload ''logName''))
       (getString (index payload ''textPayload'')) payload"

definition relayError :: "error \<Rightarrow> error" where
  "relayError err =
     (if Contains (Error err) ''invalid_auth'' then
        Errorf ''slack authentication failed - please check your bot token and permissions''
      else if Contains (Error err) ''channel_not_found'' then
        Errorf ''slack channel not found - please check your channel ID''
      else if Contains (Error err) ''not_in_channel'' then
        Errorf ''slack bot is not in the specified channel - please invite the bot to the channel''
      else Errorf (''failed to send slack message: '' @ Error err))"

section \<open>Runs of the process\<close>

text \<open>
  The package variables before \<open>init\<close> hold their zero values.
\<close>

definition fresh :: "('s, 'w) world_scheme \<Rightarrow> bool" where
  "fresh w = (slackClient w = None \<and> \<not> isSlackEnabled w \<and> appLogger w = None \<and> \<not> loggerInitOnce w)"

text \<open>
  \<open>running x w0 w\<close>: the process started in \<open>w0\<close> with fresh package variables, \<open>init\<close>
  has run, and any number of calls of \<open>SendMessage\<close> and \<open>HandleLogAlert\<close>, one after
  the other, have led to \<open>w\<close>.
\<close>

inductive running ::
  "('s, 'x) ext_scheme \<Rightarrow> ('s, 'w) world_scheme \<Rightarrow> ('s, 'w) world_scheme \<Rightarrow> bool"
  for x :: "('s, 'x) ext_scheme" and w0 :: "('s, 'w) world_scheme" where
  started: "fresh w0 \<Longrightarrow> running x w0 (init x w0)"
| sent: "running x w0 w \<Longrightarrow> running x w0 (snd (SendMessage x channelID message w))"
| handled: "running x w0 w \<Longrightarrow> running x w0 (snd (HandleLogAlert x m w))"

text \<open>
  What every state of a running process satisfies: a \<open>Once\<close> that is done has left a
  logger, and Slack is enabled only with a client.
\<close>

definition logger_inv :: "('s, 'w) world_scheme \<Rightarrow> bool" where
  "logger_inv w = (if loggerInitOnce w then appLogger w \<noteq> None else True)"

definition client_inv :: "('s, 'w) world_scheme \<Rightarrow> bool" where
  "client_inv w = (if isSlackEnabled w then slackClient w \<noteq> None else True)"

text \<open>The events of the relay: an entry into \<open>SendMessage\<close> or a post to Slack.\<close>

fun isSend :: "event \<Rightarrow> bool" where
  "isSend (SendMessageCall c t) = True"
| "isSend (PostMessage c t) = True"
| "isSend _ = False"

section \<open>A concrete run\<close>

text \<open>
  An instance of the collaborators, for evaluating the service on concrete inputs.
  \<open>decodeObject\<close> decodes the JSON objects whose members are strings without escapes,
  \<open>true\<close>, \<open>false\<close> or \<open>null\<close>, and rejects every other text; \<open>encodeScalar\<close> encodes
  such members. The logging sink cannot be built, so that \<open>getLogger\<close> takes its
  fallback; Slack accepts every token and every post, and counts the posts.
\<close>

definition isSpace :: "char \<Rightarrow> bool" where
  "isSpace c = (c = CHR 0x20 \<or> c = CHR 0x09 \<or> c = CHR 0x0A \<or> c = CHR 0x0D)"

fun scanString :: "string \<Rightarrow> (string \<times> string) option" where
  "scanString [] = None"
| "scanString (c # cs) =
     (if c = CHR 0x22 then Some ([], cs)
      else if c = CHR 0x5C then None
      else (case scanString cs of None \<Rightarrow> None | Some (s, r) \<Rightarrow> Some (c # s, r)))"

definition scanValue :: "string \<Rightarrow> (any \<times> string) option" where
  "scanValue s =
     (case s of
        [] \<Rightarrow> None
      | c # cs \<Rightarrow>
          if c = CHR 0x22 then
            (case scanString cs of None \<Rightarrow> None | Some (v, r) \<Rightarrow> Some (AnyString v, r))
          else if prefix ''true'' s then Some (AnyBool True, drop 4 s)
          else if prefix ''false'' s then Some (AnyBool False, drop 5 s)
          else if prefix ''null'' s then Some (AnyNil, drop 4 s)
          else None)"

fun scanMembers :: "nat \<Rightarrow> (string \<rightharpoonup> any) \<Rightarrow> string \<Rightarrow> (string \<rightharpoonup> any) option" where
  "scanMembers 0 m s = None"
| "scanMembers (Suc n) m s =
     (case dropWhile isSpace s of
        [] \<Rightarrow> None
      | q # cs \<Rightarrow>
          if q \<noteq> CHR 0x22 then None
          else
            (case scanString cs of
               None \<Rightarrow> None
             | Some (k, r) \<Rightarrow>
                 (case dropWhile isSpace r of
                    [] \<Rightarrow> None
                  | colon # r1 \<Rightarrow>
                      if colon \<noteq> CHR 0x3A then None
                      else
                        (case scanValue (dropWhile isSpace r1) of
                           None \<Rightarrow> None
                         | Some (v, r2) \<Rightarrow>
                             (case dropWhile isSpace r2 of
                                [] \<Rightarrow> None
                              | d # r3 \<Rightarrow>
                                  if d = CHR 0x2C then scanMembers n (m(k \<mapsto> v)) r3
                                  else if d = CHR 0x7D \<and> dropWhile isSpace r3 = [] then Some (m(k \<mapsto> v))
                                  else None)))))"

definition decodeObject :: "string \<Rightarrow> error + (string \<rightharpoonup> any)" where
  "decodeObject s =
     (case dropWhile isSpace s of
        [] \<Rightarrow> Inl (Err ''unexpected end of JSON input'')
      | c # cs \<Rightarrow>
          if c \<noteq> CHR 0x7B then Inl (Err ''not a JSON object'')
          else
            (case dropWhile isSpace cs of
               [] \<Rightarrow> Inl (Err ''unexpected end of JSON input'')
             | d # ds \<Rightarrow>
                 if d = CHR 0x7D \<and> dropWhile isSpace ds = [] then Inr Map.empty
                 else (case scanMembers (length s) Map.empty cs of
                         None \<Rightarrow> Inl (Err ''not a JSON object of plain members'')
                       | Some m \<Rightarrow> Inr m)))"

fun encodeScalar :: "any \<Rightarrow> error + string" where
  "encodeScalar AnyNil = Inr ''null''"
| "encodeScalar (AnyBool b) = Inr (if b then ''true'' else ''false'')"
| "encodeScalar (AnyString s) =
     (if CHR 0x22 \<in> set s \<or> CHR 0x5C \<in> set s then Inl (Err ''not a plain string'')
      else Inr ([CHR 0x22] @ s @ [CHR 0x22]))"
| "encodeScalar _ = Inl (Err ''not a scalar'')"

definition example_ext :: "nat ext" where
  "example_ext =
     \<lparr>unicode_ToUpper = (\<lambda>s. s),
      json_Unmarshal = decodeObject,
      json_Marshal = encodeScalar,
      godotenv_Load = (\<lambda>e. e),
      logging_remote = Inl (Err ''no credentials''),
      slack_AuthTest = (\<lambda>s token. (None, s)),
      slack_PostMessage = (\<lambda>s token channelID message. (Inr ''1700000000.000100'', Suc s))\<rparr>"

text \<open>The same, with a Slack that refuses every post.\<close>

definition example_ext_refusing :: "nat ext" where
  "example_ext_refusing =
     example_ext\<lparr>slack_PostMessage := (\<lambda>s token channelID message. (Inl (Err ''channel_not_found''), s))\<rparr>"

text \<open>The same, with a Slack that rejects the token.\<close>

definition example_ext_unauthorized :: "nat ext" where
  "example_ext_unauthorized =
     example_ext\<lparr>slack_AuthTest := (\<lambda>s token. (Some (Err ''invalid_auth''), s))\<rparr>"

text \<open>
  Processes before \<open>init\<close>: with a bot token and the error channel \<open>C1\<close>; with no
  variable set; with a token that lacks the prefix.
\<close>

definition example_boot :: "nat world" where
  "example_boot =
     \<lparr>environ = [''SLACK_BOT_TOKEN'' \<mapsto> ''xoxb-test'', ''SLACK_ERROR_CHANNEL_ID'' \<mapsto> ''C1''],
      slackClient = None, isSlackEnabled = False, appLogger = None, loggerInitOnce = False,
      slack = 0, events = []\<rparr>"

definition example_boot_unset :: "nat world" where
  "example_boot_unset = example_boot\<lparr>environ := Map.empty\<rparr>"

definition example_boot_badtoken :: "nat world" where
  "example_boot_badtoken = example_boot\<lparr>environ := [''SLACK_BOT_TOKEN'' \<mapsto> ''abc'']\<rparr>"

text \<open>A process with a token and no channel variable.\<close>

definition example_boot_nochannel :: "nat world" where
  "example_boot_nochannel = example_boot\<lparr>environ := [''SLACK_BOT_TOKEN'' \<mapsto> ''xoxb-test'']\<rparr>"

text \<open>
  Events for the handler: the scenario payload, an empty payload, a payload that
  is no JSON, the empty object, and the scenario payload with a structured payload.
\<close>

definition example_msg_scenario :: PubSubMessage where
  \<open>example_msg_scenario =
     \<lparr>Data = ''{"severity":"ERROR","logName":"projects/p/logs/l","textPayload":"boom"}'',
      Attributes = Map.empty\<rparr>\<close>

definition example_msg_empty :: PubSubMessage where
  "example_msg_empty = \<lparr>Data = [], Attributes = Map.empty\<rparr>"

definition example_msg_garbage :: PubSubMessage where
  "example_msg_garbage = \<lparr>Data = ''not json'', Attributes = Map.empty\<rparr>"

definition example_msg_object :: PubSubMessage where
  "example_msg_object = \<lparr>Data = ''{}'', Attributes = Map.empty\<rparr>"

definition example_msg_structured :: PubSubMessage where
  \<open>example_msg_structured =
     \<lparr>Data = ''{"severity":"ERROR","logName":"projects/p/logs/l","textPayload":"boom","jsonPayload":"details"}'',
      Attributes = Map.empty\<rparr>\<close>

section \<open>Lemmas\<close>


lemma emit_fields:
  "environ (emit e w) = environ w"
  "slackClient (emit e w) = slackClient w"
  "isSlackEnabled (emit e w) = isSlackEnabled w"
  "appLogger (emit e w) = appLogger w"
  "loggerInitOnce (emit e w) = loggerInitOnce w"
  "slack (emit e w) = slack w"
  "events (emit e w) = events w @ [e]"
  by (simp_all add: emit_def)

lemma Contains_iff_sublist: "Contains s substr \<longleftrightarrow> sublist substr s"
  by (induction s) (simp_all add: sublist_Cons_right)

lemma logger_New_stdout:
  "logger_New x [WithStdoutOnly, WithInvoker a, WithLogName b, WithCommonLabels c] =
     Inr \<lparr>cfg_stdoutOnly = True, cfg_invoker = a, cfg_logName = b, cfg_commonLabels = c\<rparr>"
  by (simp add: logger_New_def)

lemma getLogger_fields:
  "environ (snd (getLogger x w)) = environ w"
  "slackClient (snd (getLogger x w)) = slackClient w"
  "isSlackEnabled (snd (getLogger x w)) = isSlackEnabled w"
  "slack (snd (getLogger x w)) = slack w"
  "events (snd (getLogger x w)) = events w"
  "loggerInitOnce (snd (getLogger x w))"
  "fst (getLogger x w) = appLogger (snd (getLogger x w))"
  by (simp_all add: getLogger_def Let_def)

lemma getLogger_Some:
  assumes "logger_inv w"
  shows "\<exists>lg. fst (getLogger x w) = Some lg"
proof (cases "loggerInitOnce w")
  case True
  with assms show ?thesis by (auto simp: getLogger_def logger_inv_def)
next
  case False
  then show ?thesis
    by (auto simp: getLogger_def Let_def logger_New_stdout split: sum.splits)
qed

lemma Getenv_cong: "environ w' = environ w \<Longrightarrow> Getenv w' k = Getenv w k"
  by (simp add: Getenv_def)

lemma choose_cong:
  assumes "environ w' = environ w"
  shows "chooseChannelForSeverity x w' sev = chooseChannelForSeverity x w sev"
  unfolding chooseChannelForSeverity_def Getenv_cong [OF assms] ..

lemma choose_table:
  "chooseChannelForSeverity x w sev =
     (if ToUpper x sev \<in> {''CRITICAL'', ''ALERT'', ''EMERGENCY'', ''ERROR''}
         \<and> Getenv w ''SLACK_ERROR_CHANNEL_ID'' \<noteq> []
      then Getenv w ''SLACK_ERROR_CHANNEL_ID''
      else if ToUpper x sev \<in> {''WARNING'', ''NOTICE''}
         \<and> Getenv w ''SLACK_WARNING_CHANNEL_ID'' \<noteq> []
      then Getenv w ''SLACK_WARNING_CHANNEL_ID''
      else Getenv w ''SLACK_DEFAULT_CHANNEL_ID'')"
  by (simp add: chooseChannelForSeverity_def Let_def)

lemma upper_byte_ascii: "(of_char (upper_byte c) :: nat) < 128 \<longleftrightarrow> (of_char c :: nat) < 128"
  by (auto simp: upper_byte_def Let_def)

lemma isASCII_map_upper: "isASCII (map upper_byte s) = isASCII s"
  by (induction s) (simp_all add: isASCII_def upper_byte_ascii)

lemma isASCII_transfer:
  assumes "map upper_byte s = map upper_byte t" "isASCII s"
  shows "isASCII t"
  using assms isASCII_map_upper [of s] isASCII_map_upper [of t] by simp

lemma ToUpper_ascii_eq:
  assumes "isASCII s" "map upper_byte s = map upper_byte t"
  shows "ToUpper x s = ToUpper x t"
  using assms isASCII_transfer [of s t] by (simp add: ToUpper_def)

lemma choose_ToUpper_cong:
  "ToUpper x s = ToUpper x t \<Longrightarrow> chooseChannelForSeverity x w s = chooseChannelForSeverity x w t"
  by (simp add: chooseChannelForSeverity_def)

lemma SM_disabled:
  "\<not> isSlackEnabled w \<Longrightarrow>
   SendMessage x c msg w =
     (Done ([], Some (Errorf ''slack is not properly configured'')), emit (SendMessageCall c msg) w)"
  by (simp add: SendMessage_def Let_def emit_fields)

lemma SM_empty:
  "isSlackEnabled w \<Longrightarrow>
   SendMessage x [] msg w =
     (Done ([], Some (Errorf ''channel ID is required'')), emit (SendMessageCall [] msg) w)"
  by (simp add: SendMessage_def Let_def emit_fields)

lemma SM_post:
  assumes "isSlackEnabled w" "c \<noteq> []" "slackClient w = Some client"
    and "slack_PostMessage x (slack w) client c msg = (r, s')"
  shows "SendMessage x c msg w =
     ((case r of Inl err \<Rightarrow> Done ([], Some (relayError err)) | Inr ts \<Rightarrow> Done (ts, None)),
      emit (PostMessage c msg) ((emit (SendMessageCall c msg) w)\<lparr>slack := s'\<rparr>))"
  using assms
  by (simp add: SendMessage_def Let_def emit_fields relayError_def split: sum.splits)

lemma HLA_nil:
  assumes "fst (getLogger x w) = None"
  shows "HandleLogAlert x m w = (Panic, snd (getLogger x w))"
proof -
  obtain w1 where g: "getLogger x w = (None, w1)"
    using assms by (cases "getLogger x w") simp
  show ?thesis unfolding HandleLogAlert_def g by simp
qed

lemma HLA_empty_gen:
  assumes "fst (getLogger x w) = Some lg" "Data m = []"
  shows "HandleLogAlert x m w =
     (Done (Some (Errorf ''empty pubsub data'')),
      emit (Log WARNING ''empty pubsub data'' []) (snd (getLogger x w)))"
proof -
  obtain w1 where g: "getLogger x w = (Some lg, w1)"
    using assms(1) by (cases "getLogger x w") simp
  show ?thesis unfolding HandleLogAlert_def g reqLog_call_def
    using assms(2) by (simp add: Let_def)
qed

lemma HLA_malformed_gen:
  assumes "fst (getLogger x w) = Some lg" "Data m \<noteq> []" "json_Unmarshal x (Data m) = Inl err"
  shows "HandleLogAlert x m w =
     (Done (Some err),
      emit (Log ERROR ''failed to parse pubsub json'' [AnyError err]) (snd (getLogger x w)))"
proof -
  obtain w1 where g: "getLogger x w = (Some lg, w1)"
    using assms(1) by (cases "getLogger x w") simp
  show ?thesis unfolding HandleLogAlert_def g reqLog_call_def
    using assms(2,3) by (simp add: Let_def)
qed

text \<open>What the handler does with the result of \<open>SendMessage\<close>.\<close>

lemma HLA_parsed_gen:
  assumes "fst (getLogger x w) = Some lg" "Data m \<noteq> []" "json_Unmarshal x (Data m) = Inr payload"
  shows "HandleLogAlert x m w =
     (let channelID = chooseChannelForSeverity x w (severityOf payload)
      in case SendMessage x channelID (messageOf x payload) (snd (getLogger x w)) of
           (Panic, w2) \<Rightarrow> (Panic, w2)
         | (Done (ts, Some err), w2) \<Rightarrow>
             (Done (Some err), emit (Log ERROR ''slack send failed'' [AnyError err]) w2)
         | (Done (ts, None), w2) \<Rightarrow>
             (Done None,
              emit (Log INFO ''slack message sent''
                     [AnyMap [''ts'' \<mapsto> AnyString ts, ''channel'' \<mapsto> AnyString channelID]]) w2))"
proof -
  obtain w1 where g: "getLogger x w = (Some lg, w1)"
    using assms(1) by (cases "getLogger x w") simp
  have "environ (snd (getLogger x w)) = environ w" by (simp add: getLogger_fields)
  then have "environ w1 = environ w" by (simp add: g)
  then have c: "chooseChannelForSeverity x w1 s = chooseChannelForSeverity x w s" for s
    by (rule choose_cong)
  show ?thesis using assms(2,3)
    unfolding HandleLogAlert_def reqLog_call_def severityOf_def messageOf_def
    by (simp add: g Let_def c cong: prod.case_cong exec.case_cong option.case_cong)
qed

lemma HLA_empty:
  assumes "logger_inv w" "Data m = []"
  shows "HandleLogAlert x m w =
     (Done (Some (Errorf ''empty pubsub data'')),
      emit (Log WARNING ''empty pubsub data'' []) (snd (getLogger x w)))"
  using getLogger_Some [OF assms(1), of x] HLA_empty_gen [OF _ assms(2)] by blast

lemma HLA_malformed:
  assumes "logger_inv w" "Data m \<noteq> []" "json_Unmarshal x (Data m) = Inl err"
  shows "HandleLogAlert x m w =
     (Done (Some err),
      emit (Log ERROR ''failed to parse pubsub json'' [AnyError err]) (snd (getLogger x w)))"
  using getLogger_Some [OF assms(1), of x] HLA_malformed_gen [OF _ assms(2,3)] by blast

lemma HLA_parsed:
  assumes "logger_inv w" "Data m \<noteq> []" "json_Unmarshal x (Data m) = Inr payload"
  shows "HandleLogAlert x m w =
     (let channelID = chooseChannelForSeverity x w (severityOf payload)
      in case SendMessage x channelID (messageOf x payload) (snd (getLogger x w)) of
           (Panic, w2) \<Rightarrow> (Panic, w2)
         | (Done (ts, Some err), w2) \<Rightarrow>
             (Done (Some err), emit (Log ERROR ''slack send failed'' [AnyError err]) w2)
         | (Done (ts, None), w2) \<Rightarrow>
             (Done None,
              emit (Log INFO ''slack message sent''
                     [AnyMap [''ts'' \<mapsto> AnyString ts, ''channel'' \<mapsto> AnyString channelID]]) w2))"
  using getLogger_Some [OF assms(1), of x] HLA_parsed_gen [OF _ assms(2,3)] by blast


lemma SendMessage_fields:
  assumes "SendMessage x c t w = (r, w')"
  shows "environ w' = environ w" "isSlackEnabled w' = isSlackEnabled w"
    "slackClient w' = slackClient w" "appLogger w' = appLogger w"
    "loggerInitOnce w' = loggerInitOnce w"
  using assms
  by (auto simp: SendMessage_def Let_def emit_fields split: if_splits option.splits prod.splits sum.splits)

lemma SendMessage_snd_fields:
  "environ (snd (SendMessage x c t w)) = environ w"
  "isSlackEnabled (snd (SendMessage x c t w)) = isSlackEnabled w"
  "slackClient (snd (SendMessage x c t w)) = slackClient w"
  "appLogger (snd (SendMessage x c t w)) = appLogger w"
  "loggerInitOnce (snd (SendMessage x c t w)) = loggerInitOnce w"
  by (cases "SendMessage x c t w"; simp add: SendMessage_fields)+


text \<open>The handler leaves the world of \<open>getLogger\<close> or that of \<open>SendMessage\<close>, plus a log record.\<close>

lemma HLA_world:
  "snd (HandleLogAlert x m w) = snd (getLogger x w)
   \<or> (\<exists>e. snd (HandleLogAlert x m w) = emit e (snd (getLogger x w)))
   \<or> (\<exists>c t. snd (HandleLogAlert x m w) = snd (SendMessage x c t (snd (getLogger x w))))
   \<or> (\<exists>c t e. snd (HandleLogAlert x m w) = emit e (snd (SendMessage x c t (snd (getLogger x w)))))"
proof (cases "fst (getLogger x w)")
  case None
  show ?thesis unfolding HLA_nil [OF None] by simp
next
  case (Some lg)
  show ?thesis
  proof (cases "Data m = []")
    case True
    show ?thesis unfolding HLA_empty_gen [OF Some True] by auto
  next
    case False
    show ?thesis
    proof (cases "json_Unmarshal x (Data m)")
      case (Inl err)
      show ?thesis unfolding HLA_malformed_gen [OF Some False Inl] by auto
    next
      case (Inr payload)
      let ?c = "chooseChannelForSeverity x w (severityOf payload)"
      let ?t = "messageOf x payload"
      obtain r w2 where sm: "SendMessage x ?c ?t (snd (getLogger x w)) = (r, w2)"
        by (cases "SendMessage x ?c ?t (snd (getLogger x w))")
      have "snd (HandleLogAlert x m w) = w2 \<or> (\<exists>e. snd (HandleLogAlert x m w) = emit e w2)"
      proof (cases r)
        case Panic
        then show ?thesis unfolding HLA_parsed_gen [OF Some False Inr] Let_def sm by simp
      next
        case (Done p)
        obtain ts eo where p: "p = (ts, eo)" by (cases p)
        show ?thesis unfolding HLA_parsed_gen [OF Some False Inr] Let_def sm Done p
          by (cases eo) auto
      qed
      moreover have "w2 = snd (SendMessage x ?c ?t (snd (getLogger x w)))" by (simp add: sm)
      ultimately show ?thesis by blast
    qed
  qed
qed

lemma HandleLogAlert_fields:
  "environ (snd (HandleLogAlert x m w)) = environ w
     \<and> isSlackEnabled (snd (HandleLogAlert x m w)) = isSlackEnabled w
     \<and> slackClient (snd (HandleLogAlert x m w)) = slackClient w"
  using HLA_world [of x m w]
  by (elim disjE exE) (simp_all add: SendMessage_snd_fields emit_fields getLogger_fields)


lemma HandleLogAlert_logger_fields:
  "appLogger (snd (HandleLogAlert x m w)) = fst (getLogger x w)
     \<and> loggerInitOnce (snd (HandleLogAlert x m w))"
  using HLA_world [of x m w]
  by (elim disjE exE) (simp_all add: SendMessage_snd_fields emit_fields getLogger_fields)

lemma HandleLogAlert_logger_inv:
  assumes "logger_inv w"
  shows "logger_inv (snd (HandleLogAlert x m w))"
  using getLogger_Some [OF assms, of x] HandleLogAlert_logger_fields [of x m w]
  by (auto simp: logger_inv_def)

lemma logger_inv_SendMessage: "logger_inv (snd (SendMessage x c t w)) = logger_inv w"
  by (simp add: logger_inv_def SendMessage_snd_fields)

lemma client_inv_SendMessage: "client_inv (snd (SendMessage x c t w)) = client_inv w"
  by (simp add: client_inv_def SendMessage_snd_fields)

lemma client_inv_HandleLogAlert: "client_inv (snd (HandleLogAlert x m w)) = client_inv w"
  by (simp add: client_inv_def HandleLogAlert_fields)

lemma init_logger_fields:
  "appLogger (init x w0) = appLogger w0" "loggerInitOnce (init x w0) = loggerInitOnce w0"
  by (auto simp: init_def Let_def emit_fields testSlackAuth_def split: prod.splits option.splits)

lemma client_inv_init: "client_inv (init x w0)"
  by (auto simp: init_def Let_def emit_fields testSlackAuth_def client_inv_def
      split: prod.splits option.splits)

lemma running_inv:
  assumes "running x w0 w"
  shows "logger_inv w \<and> client_inv w \<and> environ w = environ (init x w0)
     \<and> isSlackEnabled w = isSlackEnabled (init x w0) \<and> slackClient w = slackClient (init x w0)"
  using assms
proof (induction rule: running.induct)
  case started
  then show ?case
    by (simp add: client_inv_init logger_inv_def init_logger_fields fresh_def)
next
  case (sent w channelID message)
  then show ?case
    by (simp add: SendMessage_snd_fields logger_inv_SendMessage client_inv_SendMessage)
next
  case (handled w m)
  then show ?case
    by (simp add: HandleLogAlert_fields HandleLogAlert_logger_inv client_inv_HandleLogAlert)
qed


lemma events_getLogger_emit:
  "events (emit e (snd (getLogger x w))) = events w @ [e]"
  by (simp add: emit_fields getLogger_fields)

lemma SM_disabled_snd:
  assumes "\<not> isSlackEnabled w"
  shows "SendMessage x c t (snd (getLogger x w)) =
     (Done ([], Some (Errorf ''slack is not properly configured'')),
      emit (SendMessageCall c t) (snd (getLogger x w)))"
  by (rule SM_disabled) (simp add: getLogger_fields assms)

lemma HLA_disabled:
  assumes "logger_inv w" "Data m \<noteq> []" "json_Unmarshal x (Data m) = Inr payload"
    and "\<not> isSlackEnabled w"
  shows "HandleLogAlert x m w =
     (Done (Some (Errorf ''slack is not properly configured'')),
      emit (Log ERROR ''slack send failed'' [AnyError (Errorf ''slack is not properly configured'')])
        (emit (SendMessageCall (chooseChannelForSeverity x w (severityOf payload)) (messageOf x payload))
           (snd (getLogger x w))))"
  unfolding HLA_parsed [OF assms(1-3)] Let_def SM_disabled_snd [OF assms(4)] by simp

lemma HLA_no_channel:
  assumes "logger_inv w" "Data m \<noteq> []" "json_Unmarshal x (Data m) = Inr payload"
    and "isSlackEnabled w" "chooseChannelForSeverity x w (severityOf payload) = []"
  shows "HandleLogAlert x m w =
     (Done (Some (Errorf ''channel ID is required'')),
      emit (Log ERROR ''slack send failed'' [AnyError (Errorf ''channel ID is required'')])
        (emit (SendMessageCall [] (messageOf x payload)) (snd (getLogger x w))))"
proof -
  have "isSlackEnabled (snd (getLogger x w))" by (simp add: getLogger_fields assms(4))
  then show ?thesis
    unfolding HLA_parsed [OF assms(1-3)] Let_def assms(5) by (simp add: SM_empty)
qed

lemma HLA_post:
  assumes "logger_inv w" "Data m \<noteq> []" "json_Unmarshal x (Data m) = Inr payload"
    and "isSlackEnabled w" "slackClient w = Some client"
    and "chooseChannelForSeverity x w (severityOf payload) = c" "c \<noteq> []"
    and "slack_PostMessage x (slack w) client c (messageOf x payload) = (r, s')"
  shows "HandleLogAlert x m w =
     (case r of
        Inl err \<Rightarrow>
          (Done (Some (relayError err)),
           emit (Log ERROR ''slack send failed'' [AnyError (relayError err)])
             (emit (PostMessage c (messageOf x payload))
                ((emit (SendMessageCall c (messageOf x payload)) (snd (getLogger x w)))\<lparr>slack := s'\<rparr>)))
      | Inr ts \<Rightarrow>
          (Done None,
           emit (Log INFO ''slack message sent''
                  [AnyMap [''ts'' \<mapsto> AnyString ts, ''channel'' \<mapsto> AnyString c]])
             (emit (PostMessage c (messageOf x payload))
                ((emit (SendMessageCall c (messageOf x payload)) (snd (getLogger x w)))\<lparr>slack := s'\<rparr>))))"
proof -
  let ?w1 = "snd (getLogger x w)"
  have "isSlackEnabled ?w1" "slackClient ?w1 = Some client"
    and "slack_PostMessage x (slack ?w1) client c (messageOf x payload) = (r, s')"
    by (simp_all add: getLogger_fields assms)
  from SM_post [OF this(1) assms(7) this(2,3)] show ?thesis
    unfolding HLA_parsed [OF assms(1-3)] Let_def assms(6)
    by (cases r) simp_all
qed

lemma events_post:
  "events (emit e3 (emit e2 ((emit e1 (snd (getLogger x w)))\<lparr>slack := s'\<rparr>))) = events w @ [e1, e2, e3]"
  by (simp add: emit_def getLogger_fields)

lemma events_call:
  "events (emit e2 (emit e1 (snd (getLogger x w)))) = events w @ [e1, e2]"
  by (simp add: emit_def getLogger_fields)

text \<open>The relay events of one call of the handler.\<close>

lemma HLA_sends:
  assumes "logger_inv w" "client_inv w"
  shows "\<exists>es. events (snd (HandleLogAlert x m w)) = events w @ es \<and>
     filter isSend es =
       (if Data m = [] then []
        else case json_Unmarshal x (Data m) of
               Inl err \<Rightarrow> []
             | Inr payload \<Rightarrow>
                 SendMessageCall (chooseChannelForSeverity x w (severityOf payload)) (messageOf x payload)
                 # (if isSlackEnabled w \<and> chooseChannelForSeverity x w (severityOf payload) \<noteq> []
                    then [PostMessage (chooseChannelForSeverity x w (severityOf payload)) (messageOf x payload)]
                    else []))"
proof (cases "Data m = []")
  case True
  then show ?thesis
    by (simp add: HLA_empty [OF assms(1)] events_getLogger_emit)
next
  case False
  show ?thesis
  proof (cases "json_Unmarshal x (Data m)")
    case (Inl err)
    with False show ?thesis
      by (simp add: HLA_malformed [OF assms(1)] events_getLogger_emit)
  next
    case (Inr payload)
    let ?c = "chooseChannelForSeverity x w (severityOf payload)"
    let ?t = "messageOf x payload"
    show ?thesis
    proof (cases "isSlackEnabled w")
      case off: False
      show ?thesis using False Inr off
        by (simp add: HLA_disabled [OF assms(1) False Inr off] events_call)
    next
      case on: True
      show ?thesis
      proof (cases "?c = []")
        case True
        show ?thesis using False Inr on True
          by (simp add: HLA_no_channel [OF assms(1) False Inr on True] events_call)
      next
        case ch: False
        from assms(2) on obtain client where cl: "slackClient w = Some client"
          by (auto simp: client_inv_def)
        obtain r s' where pm: "slack_PostMessage x (slack w) client ?c ?t = (r, s')"
          by (cases "slack_PostMessage x (slack w) client ?c ?t")
        show ?thesis using False Inr on ch
          by (cases r) (simp_all add: HLA_post [OF assms(1) False Inr on cl refl ch pm] events_post)
      qed
    qed
  qed
qed

text \<open>The concrete run.\<close>

lemma ex_init:
  "init example_ext example_boot =
     example_boot\<lparr>slackClient := Some ''xoxb-test'', isSlackEnabled := True,
       events := [AuthTest ''xoxb-test'', Printf ''Slack integration initialized successfully'']\<rparr>"
  by (simp add: init_def example_ext_def example_boot_def Getenv_def HasPrefix_def
      testSlackAuth_def emit_def Let_def)

lemma ex_running: "running example_ext example_boot (init example_ext example_boot)"
  by (rule running.started) (simp add: fresh_def example_boot_def)

lemma ToUpper_literals:
  "ToUpper x ''ERROR'' = ''ERROR''" "ToUpper x ''DEFAULT'' = ''DEFAULT''" "ToUpper x ''error'' = ''ERROR''"
  by (simp_all add: ToUpper_def isASCII_def upper_byte_def char_of_def bit_Suc_0_iff)

text \<open>Further facts about the handler and about the concrete run.\<close>

lemma slack_emit_getLogger: "slack (emit e (snd (getLogger x w))) = slack w"
  by (simp add: emit_fields getLogger_fields)

lemma ex_decode_garbage: "decodeObject ''not json'' = Inl (Err ''not a JSON object'')"
  by (simp add: decodeObject_def isSpace_def)

lemma ex_decode_object: "decodeObject ''{}'' = Inr Map.empty"
  by (simp add: decodeObject_def isSpace_def)

lemma ex_decode_scenario:
  \<open>decodeObject ''{"severity":"ERROR","logName":"projects/p/logs/l","textPayload":"boom"}'' =
     Inr [''severity'' \<mapsto> AnyString ''ERROR'', ''logName'' \<mapsto> AnyString ''projects/p/logs/l'',
          ''textPayload'' \<mapsto> AnyString ''boom'']\<close>
  by (simp add: decodeObject_def scanValue_def isSpace_def)

lemma ex_started:
  "isSlackEnabled (init example_ext example_boot)"
  "slackClient (init example_ext example_boot) = Some ''xoxb-test''"
  "events (init example_ext example_boot) =
     [AuthTest ''xoxb-test'', Printf ''Slack integration initialized successfully'']"
  "slack (init example_ext example_boot) = 0"
  "Getenv (init example_ext example_boot) ''SLACK_ERROR_CHANNEL_ID'' = ''C1''"
  "Getenv (init example_ext example_boot) ''SLACK_WARNING_CHANNEL_ID'' = []"
  "Getenv (init example_ext example_boot) ''SLACK_DEFAULT_CHANNEL_ID'' = []"
  unfolding ex_init Getenv_def by (simp_all add: example_boot_def)

lemma ex_init_unset:
  "init example_ext example_boot_unset =
     example_boot_unset\<lparr>events :=
       [Printf ''SLACK_BOT_TOKEN environment variable is not set. Slack notifications will be disabled.'']\<rparr>"
  by (simp add: init_def example_ext_def example_boot_unset_def example_boot_def Getenv_def emit_def Let_def)

lemma ex_running_unset: "running example_ext example_boot_unset (init example_ext example_boot_unset)"
  by (rule running.started) (simp add: fresh_def example_boot_unset_def example_boot_def)

lemma ex_started_unset:
  "\<not> isSlackEnabled (init example_ext example_boot_unset)"
  "events (init example_ext example_boot_unset) =
     [Printf ''SLACK_BOT_TOKEN environment variable is not set. Slack notifications will be disabled.'']"
  "Getenv (init example_ext example_boot_unset) k = []"
  unfolding ex_init_unset Getenv_def by (simp_all add: example_boot_unset_def example_boot_def)

lemma severityOf_empty: "severityOf Map.empty = ''DEFAULT''"
  by (simp add: severityOf_def index_def)

lemma messageOf_empty: "messageOf x Map.empty = ''[DEFAULT] ''"
  by (simp add: messageOf_def buildMessage_def severityOf_empty index_def)

lemma ex_unmarshal_object: "json_Unmarshal example_ext (Data example_msg_object) = Inr Map.empty"
  by (simp add: example_ext_def example_msg_object_def ex_decode_object)

lemma ex_init_nochannel:
  "init example_ext example_boot_nochannel =
     example_boot_nochannel\<lparr>slackClient := Some ''xoxb-test'', isSlackEnabled := True,
       events := [AuthTest ''xoxb-test'', Printf ''Slack integration initialized successfully'']\<rparr>"
  by (simp add: init_def example_ext_def example_boot_nochannel_def example_boot_def Getenv_def
      HasPrefix_def testSlackAuth_def emit_def Let_def)

lemma ex_running_nochannel:
  "running example_ext example_boot_nochannel (init example_ext example_boot_nochannel)"
  by (rule running.started) (simp add: fresh_def example_boot_nochannel_def example_boot_def)

lemma ex_started_nochannel:
  "isSlackEnabled (init example_ext example_boot_nochannel)"
  "events (init example_ext example_boot_nochannel) =
     [AuthTest ''xoxb-test'', Printf ''Slack integration initialized successfully'']"
  "Getenv (init example_ext example_boot_nochannel) ''SLACK_ERROR_CHANNEL_ID'' = []"
  "Getenv (init example_ext example_boot_nochannel) ''SLACK_WARNING_CHANNEL_ID'' = []"
  "Getenv (init example_ext example_boot_nochannel) ''SLACK_DEFAULT_CHANNEL_ID'' = []"
  unfolding ex_init_nochannel Getenv_def
  by (simp_all add: example_boot_nochannel_def example_boot_def)

lemma ex_init_refusing:
  "init example_ext_refusing example_boot =
     example_boot\<lparr>slackClient := Some ''xoxb-test'', isSlackEnabled := True,
       events := [AuthTest ''xoxb-test'', Printf ''Slack integration initialized successfully'']\<rparr>"
  by (simp add: init_def example_ext_refusing_def example_ext_def example_boot_def Getenv_def
      HasPrefix_def testSlackAuth_def emit_def Let_def)

lemma ex_running_refusing: "running example_ext_refusing example_boot (init example_ext_refusing example_boot)"
  by (rule running.started) (simp add: fresh_def example_boot_def)

lemma ex_started_refusing:
  "isSlackEnabled (init example_ext_refusing example_boot)"
  "slackClient (init example_ext_refusing example_boot) = Some ''xoxb-test''"
  "events (init example_ext_refusing example_boot) =
     [AuthTest ''xoxb-test'', Printf ''Slack integration initialized successfully'']"
  "slack (init example_ext_refusing example_boot) = 0"
  "Getenv (init example_ext_refusing example_boot) ''SLACK_ERROR_CHANNEL_ID'' = ''C1''"
  unfolding ex_init_refusing Getenv_def by (simp_all add: example_boot_def)

lemma ex_unmarshal_scenario:
  "json_Unmarshal example_ext (Data example_msg_scenario) =
     Inr [''severity'' \<mapsto> AnyString ''ERROR'', ''logName'' \<mapsto> AnyString ''projects/p/logs/l'',
          ''textPayload'' \<mapsto> AnyString ''boom'']"
  "json_Unmarshal example_ext_refusing (Data example_msg_scenario) =
     Inr [''severity'' \<mapsto> AnyString ''ERROR'', ''logName'' \<mapsto> AnyString ''projects/p/logs/l'',
          ''textPayload'' \<mapsto> AnyString ''boom'']"
  by (simp_all add: example_ext_refusing_def example_ext_def example_msg_scenario_def ex_decode_scenario)

lemma HLA_post_ok:
  assumes "logger_inv w" "Data m \<noteq> []" "json_Unmarshal x (Data m) = Inr payload"
    and "isSlackEnabled w" "slackClient w = Some client"
    and "chooseChannelForSeverity x w (severityOf payload) = c" "c \<noteq> []"
    and "slack_PostMessage x (slack w) client c (messageOf x payload) = (Inr ts, s')"
  shows "fst (HandleLogAlert x m w) = Done None"
    and "events (snd (HandleLogAlert x m w)) =
           events w @ [SendMessageCall c (messageOf x payload), PostMessage c (messageOf x payload),
             Log INFO ''slack message sent''
               [AnyMap [''ts'' \<mapsto> AnyString ts, ''channel'' \<mapsto> AnyString c]]]"
    and "slack (snd (HandleLogAlert x m w)) = s'"
  unfolding HLA_post [OF assms]
  by (simp_all add: events_post emit_fields getLogger_fields)

lemma ex_scenario_payload:
  "severityOf [''severity'' \<mapsto> AnyString ''ERROR'', ''logName'' \<mapsto> AnyString ''projects/p/logs/l'',
               ''textPayload'' \<mapsto> AnyString ''boom''] = ''ERROR''"
  "messageOf x [''severity'' \<mapsto> AnyString ''ERROR'', ''logName'' \<mapsto> AnyString ''projects/p/logs/l'',
               ''textPayload'' \<mapsto> AnyString ''boom''] =
     ''[ERROR] projects/p/logs/l'' @ [CHR 0x0A] @ ''boom''"
  by (simp_all add: messageOf_def buildMessage_def severityOf_def index_def)

lemma ex_post: "slack_PostMessage example_ext n token c t = (Inr ''1700000000.000100'', Suc n)"
  by (simp add: example_ext_def)

lemma messageOf_form:
  "messageOf x payload =
     ''['' @ (if getString (index payload ''severity'') = [] then ''DEFAULT''
              else getString (index payload ''severity''))
     @ ''] '' @ getString (index payload ''logName'')
     @ (if getString (index payload ''textPayload'') \<noteq> []
        then [CHR 0x0A] @ getString (index payload ''textPayload'') else [])
     @ (case payload ''jsonPayload'' of
          None \<Rightarrow> []
        | Some jp \<Rightarrow>
            (if jp = AnyNil then []
             else (case json_Marshal x jp of
                     Inr compact \<Rightarrow> [CHR 0x0A] @ ''json: '' @ compact
                   | Inl err \<Rightarrow> [])))"
  by (simp add: messageOf_def buildMessage_def severityOf_def Let_def
      split: option.splits sum.splits)

lemma ex_decode_structured:
  \<open>decodeObject
      ''{"severity":"ERROR","logName":"projects/p/logs/l","textPayload":"boom","jsonPayload":"details"}'' =
     Inr [''severity'' \<mapsto> AnyString ''ERROR'', ''logName'' \<mapsto> AnyString ''projects/p/logs/l'',
          ''textPayload'' \<mapsto> AnyString ''boom'', ''jsonPayload'' \<mapsto> AnyString ''details'']\<close>
  by (simp add: decodeObject_def scanValue_def isSpace_def)

lemma ex_unmarshal_structured:
  "json_Unmarshal example_ext (Data example_msg_structured) =
     Inr [''severity'' \<mapsto> AnyString ''ERROR'', ''logName'' \<mapsto> AnyString ''projects/p/logs/l'',
          ''textPayload'' \<mapsto> AnyString ''boom'', ''jsonPayload'' \<mapsto> AnyString ''details'']"
  by (simp add: example_ext_def example_msg_structured_def ex_decode_structured)

lemma getString_index:
  "getString (index payload k) = (case payload k of Some (AnyString s) \<Rightarrow> s | _ \<Rightarrow> [])"
  by (simp add: index_def split: option.splits any.splits)

lemma choose_DEFAULT: "chooseChannelForSeverity x w ''DEFAULT'' = Getenv w ''SLACK_DEFAULT_CHANNEL_ID''"
  by (simp add: choose_table ToUpper_literals)

lemma init_disabled:
  assumes "tok = Getenv (w0\<lparr>environ := godotenv_Load x (environ w0)\<rparr>) ''SLACK_BOT_TOKEN''"
    and "tok = [] \<or> \<not> HasPrefix tok ''xoxb-'' \<or> fst (slack_AuthTest x (slack w0) tok) \<noteq> None"
  shows "\<not> isSlackEnabled (init x w0)"
  using assms
  by (auto simp: init_def Let_def emit_fields testSlackAuth_def split: prod.splits option.splits)

lemma ex_running_badtoken:
  "running example_ext example_boot_badtoken (init example_ext example_boot_badtoken)"
  by (rule running.started) (simp add: fresh_def example_boot_badtoken_def example_boot_def)

lemma ex_running_unauthorized:
  "running example_ext_unauthorized example_boot (init example_ext_unauthorized example_boot)"
  by (rule running.started) (simp add: fresh_def example_boot_def)

lemma ex_tokens:
  "Getenv (example_boot_unset\<lparr>environ := godotenv_Load example_ext (environ example_boot_unset)\<rparr>)
     ''SLACK_BOT_TOKEN'' = []"
  "Getenv (example_boot_badtoken\<lparr>environ := godotenv_Load example_ext (environ example_boot_badtoken)\<rparr>)
     ''SLACK_BOT_TOKEN'' = ''abc''"
  "Getenv (example_boot\<lparr>environ := godotenv_Load example_ext_unauthorized (environ example_boot)\<rparr>)
     ''SLACK_BOT_TOKEN'' = ''xoxb-test''"
  by (simp_all add: Getenv_def example_ext_unauthorized_def example_ext_def example_boot_unset_def
      example_boot_badtoken_def example_boot_def)

section \<open>Claims\<close>

text \<open>
  C1. For every severity string, channel selection follows the bucket table on the
  upper-cased severity: \<open>CRITICAL\<close>, \<open>ALERT\<close>, \<open>EMERGENCY\<close> and \<open>ERROR\<close> give the error
  destination, \<open>WARNING\<close> and \<open>NOTICE\<close> the warning destination, and any other
  severity, or a bucket whose destination is unset, gives the default destination.
  It is case-insensitive: on an ASCII severity the upper-casing is bytewise, and two
  severities that differ only in the case of their letters select the same channel.
\<close>

theorem C1_channel_selection:
  "chooseChannelForSeverity x w sev =
     (if ToUpper x sev \<in> {''CRITICAL'', ''ALERT'', ''EMERGENCY'', ''ERROR''}
         \<and> Getenv w ''SLACK_ERROR_CHANNEL_ID'' \<noteq> []
      then Getenv w ''SLACK_ERROR_CHANNEL_ID''
      else if ToUpper x sev \<in> {''WARNING'', ''NOTICE''}
         \<and> Getenv w ''SLACK_WARNING_CHANNEL_ID'' \<noteq> []
      then Getenv w ''SLACK_WARNING_CHANNEL_ID''
      else Getenv w ''SLACK_DEFAULT_CHANNEL_ID'')
   \<and> (isASCII sev \<longrightarrow> ToUpper x sev = map upper_byte sev)
   \<and> (isASCII sev \<longrightarrow> map upper_byte sev = map upper_byte sev' \<longrightarrow>
        chooseChannelForSeverity x w sev = chooseChannelForSeverity x w sev')"
proof (intro conjI impI)
  show "chooseChannelForSeverity x w sev =
     (if ToUpper x sev \<in> {''CRITICAL'', ''ALERT'', ''EMERGENCY'', ''ERROR''}
         \<and> Getenv w ''SLACK_ERROR_CHANNEL_ID'' \<noteq> []
      then Getenv w ''SLACK_ERROR_CHANNEL_ID''
      else if ToUpper x sev \<in> {''WARNING'', ''NOTICE''}
         \<and> Getenv w ''SLACK_WARNING_CHANNEL_ID'' \<noteq> []
      then Getenv w ''SLACK_WARNING_CHANNEL_ID''
      else Getenv w ''SLACK_DEFAULT_CHANNEL_ID'')"
    by (rule choose_table)
next
  assume "isASCII sev"
  then show "ToUpper x sev = map upper_byte sev" by (simp add: ToUpper_def)
next
  assume "isASCII sev" "map upper_byte sev = map upper_byte sev'"
  then show "chooseChannelForSeverity x w sev = chooseChannelForSeverity x w sev'"
    by (intro choose_ToUpper_cong ToUpper_ascii_eq)
qed

text \<open>
  The severities \<open>error\<close> and \<open>ERROR\<close> both select the error channel \<open>C1\<close> of the
  concrete run.
\<close>

theorem C1_channel_selection_witness:
  "isASCII ''error'' \<and> map upper_byte ''error'' = map upper_byte ''ERROR''
   \<and> ToUpper example_ext ''error'' = ''ERROR''
   \<and> chooseChannelForSeverity example_ext example_boot ''error'' = ''C1''
   \<and> chooseChannelForSeverity example_ext example_boot ''ERROR'' = ''C1''"
proof -
  have e: "Getenv example_boot ''SLACK_ERROR_CHANNEL_ID'' = ''C1''"
    by (simp add: Getenv_def example_boot_def)
  from C1_channel_selection [of example_ext example_boot "''error''" "''ERROR''"]
  show ?thesis
    by (auto simp add: e ToUpper_def isASCII_def upper_byte_def char_of_def bit_Suc_0_iff)
qed

text \<open>
  C2. In a running process, a relay invocation with an empty payload returns the
  error \<open>empty pubsub data\<close>, and the only event it adds is the warning record; an
  invocation whose payload \<open>json.Unmarshal\<close> rejects returns the decoder's error, and
  the only event it adds is the error record that carries it. In both cases the
  record is in the log when the handler returns, \<open>SendMessage\<close> is not entered,
  nothing is posted and the state of Slack is unchanged.
\<close>

theorem C2_malformed_input:
  assumes "running x w0 w"
  shows "(Data m = [] \<longrightarrow>
            fst (HandleLogAlert x m w) = Done (Some (Errorf ''empty pubsub data''))
            \<and> events (snd (HandleLogAlert x m w)) = events w @ [Log WARNING ''empty pubsub data'' []]
            \<and> slack (snd (HandleLogAlert x m w)) = slack w)
       \<and> (Data m \<noteq> [] \<longrightarrow> json_Unmarshal x (Data m) = Inl err \<longrightarrow>
            fst (HandleLogAlert x m w) = Done (Some err)
            \<and> events (snd (HandleLogAlert x m w)) =
                events w @ [Log ERROR ''failed to parse pubsub json'' [AnyError err]]
            \<and> slack (snd (HandleLogAlert x m w)) = slack w)"
proof -
  from running_inv [OF assms] have inv: "logger_inv w" by simp
  show ?thesis
  proof (intro conjI impI)
    assume e: "Data m = []"
    show "fst (HandleLogAlert x m w) = Done (Some (Errorf ''empty pubsub data''))"
      and "events (snd (HandleLogAlert x m w)) = events w @ [Log WARNING ''empty pubsub data'' []]"
      and "slack (snd (HandleLogAlert x m w)) = slack w"
      by (simp_all add: HLA_empty [OF inv e] events_getLogger_emit slack_emit_getLogger)
  next
    assume ne: "Data m \<noteq> []" and bad: "json_Unmarshal x (Data m) = Inl err"
    show "fst (HandleLogAlert x m w) = Done (Some err)"
      and "events (snd (HandleLogAlert x m w)) =
             events w @ [Log ERROR ''failed to parse pubsub json'' [AnyError err]]"
      and "slack (snd (HandleLogAlert x m w)) = slack w"
      by (simp_all add: HLA_malformed [OF inv ne bad] events_getLogger_emit slack_emit_getLogger)
  qed
qed

text \<open>
  The concrete run on the empty payload and on a payload that is no JSON.
\<close>

theorem C2_malformed_input_witness:
  "running example_ext example_boot (init example_ext example_boot)
   \<and> Data example_msg_empty = []
   \<and> fst (HandleLogAlert example_ext example_msg_empty (init example_ext example_boot))
       = Done (Some (Errorf ''empty pubsub data''))
   \<and> events (snd (HandleLogAlert example_ext example_msg_empty (init example_ext example_boot)))
       = [AuthTest ''xoxb-test'', Printf ''Slack integration initialized successfully'',
          Log WARNING ''empty pubsub data'' []]
   \<and> Data example_msg_garbage \<noteq> []
   \<and> json_Unmarshal example_ext (Data example_msg_garbage) = Inl (Err ''not a JSON object'')
   \<and> fst (HandleLogAlert example_ext example_msg_garbage (init example_ext example_boot))
       = Done (Some (Err ''not a JSON object''))
   \<and> events (snd (HandleLogAlert example_ext example_msg_garbage (init example_ext example_boot)))
       = [AuthTest ''xoxb-test'', Printf ''Slack integration initialized successfully'',
          Log ERROR ''failed to parse pubsub json'' [AnyError (Err ''not a JSON object'')]]"
proof -
  have d: "json_Unmarshal example_ext (Data example_msg_garbage) = Inl (Err ''not a JSON object'')"
    by (simp add: example_ext_def example_msg_garbage_def ex_decode_garbage)
  have ev: "events (init example_ext example_boot) =
      [AuthTest ''xoxb-test'', Printf ''Slack integration initialized successfully'']"
    by (simp add: ex_init)
  from C2_malformed_input [OF ex_running, of example_msg_empty]
    C2_malformed_input [OF ex_running, of example_msg_garbage "Err ''not a JSON object''"]
  show ?thesis
    by (simp add: ex_running d ev) (simp add: example_msg_empty_def example_msg_garbage_def)
qed

text \<open>
  C3. The scenario. In a running process with Slack enabled and the error channel
  set to \<open>C1\<close>, where the payload decodes to its three string members and Slack
  accepts the post with the token \<open>ts\<close>: the handler returns no error, and the events
  it adds are the entry into \<open>SendMessage\<close> and the post, both with destination \<open>C1\<close>
  and the message \<open>[ERROR] projects/p/logs/l\<close>, a newline, \<open>boom\<close>, followed by an
  info record that holds the token and the destination.
\<close>

theorem C3_scenario:
  assumes "running x w0 w" "isSlackEnabled w" "slackClient w = Some client"
    and "Getenv w ''SLACK_ERROR_CHANNEL_ID'' = ''C1''"
    and \<open>json_Unmarshal x ''{"severity":"ERROR","logName":"projects/p/logs/l","textPayload":"boom"}'' =
           Inr [''severity'' \<mapsto> AnyString ''ERROR'', ''logName'' \<mapsto> AnyString ''projects/p/logs/l'',
                ''textPayload'' \<mapsto> AnyString ''boom'']\<close>
    and "slack_PostMessage x (slack w) client ''C1''
           (''[ERROR] projects/p/logs/l'' @ [CHR 0x0A] @ ''boom'') = (Inr ts, s')"
  shows \<open>fst (HandleLogAlert x
             \<lparr>Data = ''{"severity":"ERROR","logName":"projects/p/logs/l","textPayload":"boom"}'',
              Attributes = attrs\<rparr> w) = Done None
         \<and> events (snd (HandleLogAlert x
             \<lparr>Data = ''{"severity":"ERROR","logName":"projects/p/logs/l","textPayload":"boom"}'',
              Attributes = attrs\<rparr> w)) =
             events w @
               [SendMessageCall ''C1'' (''[ERROR] projects/p/logs/l'' @ [CHR 0x0A] @ ''boom''),
                PostMessage ''C1'' (''[ERROR] projects/p/logs/l'' @ [CHR 0x0A] @ ''boom''),
                Log INFO ''slack message sent''
                  [AnyMap [''ts'' \<mapsto> AnyString ts, ''channel'' \<mapsto> AnyString ''C1'']]]\<close>
proof -
  let ?payload = "[''severity'' \<mapsto> AnyString ''ERROR'', ''logName'' \<mapsto> AnyString ''projects/p/logs/l'',
                   ''textPayload'' \<mapsto> AnyString ''boom'']"
  let ?m = \<open>\<lparr>Data = ''{"severity":"ERROR","logName":"projects/p/logs/l","textPayload":"boom"}'',
              Attributes = attrs\<rparr>\<close>
  from running_inv [OF assms(1)] have inv: "logger_inv w" by simp
  have ne: "Data ?m \<noteq> []" by simp
  have dec: "json_Unmarshal x (Data ?m) = Inr ?payload" using assms(5) by simp
  have sev: "severityOf ?payload = ''ERROR''"
    by (simp add: severityOf_def index_def)
  have msg: "messageOf x ?payload = ''[ERROR] projects/p/logs/l'' @ [CHR 0x0A] @ ''boom''"
    by (simp add: messageOf_def buildMessage_def sev index_def)
  have ch: "chooseChannelForSeverity x w (severityOf ?payload) = ''C1''"
    by (simp add: sev choose_table ToUpper_literals assms(4))
  have pm: "slack_PostMessage x (slack w) client ''C1'' (messageOf x ?payload) = (Inr ts, s')"
    using assms(6) by (simp only: msg)
  have c1: "''C1'' \<noteq> []" by simp
  show ?thesis
    unfolding HLA_post [OF inv ne dec assms(2,3) ch c1 pm] msg
    by (simp add: events_post)
qed

text \<open>
  The concrete run decodes the payload of the scenario itself and posts it.
\<close>

theorem C3_scenario_witness:
  "running example_ext example_boot (init example_ext example_boot)
   \<and> isSlackEnabled (init example_ext example_boot)
   \<and> slackClient (init example_ext example_boot) = Some ''xoxb-test''
   \<and> Getenv (init example_ext example_boot) ''SLACK_ERROR_CHANNEL_ID'' = ''C1''
   \<and> fst (HandleLogAlert example_ext example_msg_scenario (init example_ext example_boot)) = Done None
   \<and> events (snd (HandleLogAlert example_ext example_msg_scenario (init example_ext example_boot))) =
       [AuthTest ''xoxb-test'', Printf ''Slack integration initialized successfully'',
        SendMessageCall ''C1'' (''[ERROR] projects/p/logs/l'' @ [CHR 0x0A] @ ''boom''),
        PostMessage ''C1'' (''[ERROR] projects/p/logs/l'' @ [CHR 0x0A] @ ''boom''),
        Log INFO ''slack message sent''
          [AnyMap [''ts'' \<mapsto> AnyString ''1700000000.000100'', ''channel'' \<mapsto> AnyString ''C1'']]]"
proof -
  let ?w = "init example_ext example_boot"
  note on = ex_started(1) and cl = ex_started(2) and ev = ex_started(3) and sl = ex_started(4)
    and env = ex_started(5)
  have dec: \<open>json_Unmarshal example_ext
        ''{"severity":"ERROR","logName":"projects/p/logs/l","textPayload":"boom"}'' =
      Inr [''severity'' \<mapsto> AnyString ''ERROR'', ''logName'' \<mapsto> AnyString ''projects/p/logs/l'',
           ''textPayload'' \<mapsto> AnyString ''boom'']\<close>
    by (simp add: example_ext_def ex_decode_scenario)
  have pm: "slack_PostMessage example_ext (slack ?w) ''xoxb-test'' ''C1''
      (''[ERROR] projects/p/logs/l'' @ [CHR 0x0A] @ ''boom'') = (Inr ''1700000000.000100'', Suc 0)"
    unfolding sl by (simp add: example_ext_def)
  from C3_scenario [OF ex_running on cl env dec pm, of Map.empty]
  show ?thesis
    by (simp add: ex_running on cl env ev example_msg_scenario_def)
qed

text \<open>
  C4, as amended. In a running process with Slack enabled, when the payload decodes
  and no destination resolves (the default channel is unset, and so is the channel
  of the bucket the severity falls in), channel selection gives the empty
  destination, the handler passes it to \<open>SendMessage\<close> and does not fail before, and
  \<open>SendMessage\<close> rejects it with the validation error \<open>channel ID is required\<close>; the
  handler logs that error and returns it, and nothing is posted.
\<close>

theorem C4_no_channel_validation:
  assumes "running x w0 w" "isSlackEnabled w"
    and "Data m \<noteq> []" "json_Unmarshal x (Data m) = Inr payload"
    and "sev = (if getString (index payload ''severity'') = [] then ''DEFAULT''
                else getString (index payload ''severity''))"
    and "Getenv w ''SLACK_DEFAULT_CHANNEL_ID'' = []"
    and "ToUpper x sev \<in> {''CRITICAL'', ''ALERT'', ''EMERGENCY'', ''ERROR''}
           \<longrightarrow> Getenv w ''SLACK_ERROR_CHANNEL_ID'' = []"
    and "ToUpper x sev \<in> {''WARNING'', ''NOTICE''}
           \<longrightarrow> Getenv w ''SLACK_WARNING_CHANNEL_ID'' = []"
  shows "chooseChannelForSeverity x w sev = []
       \<and> fst (HandleLogAlert x m w) = Done (Some (Errorf ''channel ID is required''))
       \<and> (\<exists>message. events (snd (HandleLogAlert x m w)) =
             events w @
               [SendMessageCall [] message,
                Log ERROR ''slack send failed'' [AnyError (Errorf ''channel ID is required'')]])
       \<and> slack (snd (HandleLogAlert x m w)) = slack w"
proof -
  from running_inv [OF assms(1)] have inv: "logger_inv w" by simp
  have sev: "sev = severityOf payload" by (simp add: assms(5) severityOf_def Let_def)
  have ch: "chooseChannelForSeverity x w sev = []"
    unfolding choose_table using assms(6-8) by auto
  then have ch': "chooseChannelForSeverity x w (severityOf payload) = []" by (simp add: sev)
  note h = HLA_no_channel [OF inv assms(3,4,2) ch']
  show ?thesis
    unfolding h by (simp add: ch events_call emit_fields getLogger_fields)
qed

text \<open>
  A concrete run with a bot token and no channel variable, on the empty object.
\<close>

theorem C4_no_channel_validation_witness:
  "running example_ext example_boot_nochannel (init example_ext example_boot_nochannel)
   \<and> isSlackEnabled (init example_ext example_boot_nochannel)
   \<and> Data example_msg_object \<noteq> []
   \<and> Getenv (init example_ext example_boot_nochannel) ''SLACK_DEFAULT_CHANNEL_ID'' = []
   \<and> ToUpper example_ext ''DEFAULT'' \<notin> {''CRITICAL'', ''ALERT'', ''EMERGENCY'', ''ERROR''}
   \<and> ToUpper example_ext ''DEFAULT'' \<notin> {''WARNING'', ''NOTICE''}
   \<and> chooseChannelForSeverity example_ext (init example_ext example_boot_nochannel) ''DEFAULT'' = []
   \<and> fst (HandleLogAlert example_ext example_msg_object (init example_ext example_boot_nochannel)) =
       Done (Some (Errorf ''channel ID is required''))"
proof -
  let ?w = "init example_ext example_boot_nochannel"
  have ne: "Data example_msg_object \<noteq> []" by (simp add: example_msg_object_def)
  have sev: "''DEFAULT'' = (if getString (index Map.empty ''severity'') = [] then ''DEFAULT''
                else getString (index Map.empty ''severity''))"
    by (simp add: index_def)
  have e: "ToUpper example_ext ''DEFAULT'' \<in> {''CRITICAL'', ''ALERT'', ''EMERGENCY'', ''ERROR''}
           \<longrightarrow> Getenv ?w ''SLACK_ERROR_CHANNEL_ID'' = []"
    and wn: "ToUpper example_ext ''DEFAULT'' \<in> {''WARNING'', ''NOTICE''}
           \<longrightarrow> Getenv ?w ''SLACK_WARNING_CHANNEL_ID'' = []"
    by (simp_all add: ex_started_nochannel)
  from C4_no_channel_validation [OF ex_running_nochannel ex_started_nochannel(1) ne
      ex_unmarshal_object sev ex_started_nochannel(5) e wn]
  show ?thesis
    by (simp add: ex_running_nochannel ex_started_nochannel ne ToUpper_literals)
qed

text \<open>
  C4, as stated, fails when Slack is not enabled: \<open>SendMessage\<close> tests
  \<open>isSlackEnabled\<close> before it tests the channel. In the concrete run without a bot
  token no destination resolves, the empty destination is passed to \<open>SendMessage\<close>,
  and the error that comes back is \<open>slack is not properly configured\<close>, not the
  validation error.
\<close>

theorem C4_counterexample:
  "running example_ext example_boot_unset (init example_ext example_boot_unset)
   \<and> chooseChannelForSeverity example_ext (init example_ext example_boot_unset) ''DEFAULT'' = []
   \<and> events (snd (HandleLogAlert example_ext example_msg_object (init example_ext example_boot_unset))) =
       [Printf ''SLACK_BOT_TOKEN environment variable is not set. Slack notifications will be disabled.'',
        SendMessageCall [] ''[DEFAULT] '',
        Log ERROR ''slack send failed'' [AnyError (Errorf ''slack is not properly configured'')]]
   \<and> fst (HandleLogAlert example_ext example_msg_object (init example_ext example_boot_unset)) =
       Done (Some (Errorf ''slack is not properly configured''))
   \<and> fst (HandleLogAlert example_ext example_msg_object (init example_ext example_boot_unset)) \<noteq>
       Done (Some (Errorf ''channel ID is required''))"
proof -
  let ?w = "init example_ext example_boot_unset"
  from running_inv [OF ex_running_unset] have inv: "logger_inv ?w" by simp
  have ne: "Data example_msg_object \<noteq> []" by (simp add: example_msg_object_def)
  have ch: "chooseChannelForSeverity example_ext ?w ''DEFAULT'' = []"
    by (simp add: choose_table ToUpper_literals ex_started_unset)
  note h = HLA_disabled [OF inv ne ex_unmarshal_object ex_started_unset(1)]
  show ?thesis
    unfolding h severityOf_empty messageOf_empty ch
    by (simp add: ex_running_unset events_call ex_started_unset Errorf_def)
qed

text \<open>
  C5. In a running process, when the post to Slack fails with an error \<open>e\<close>,
  \<open>SendMessage\<close> returns, and the handler logs as an error record and then returns,
  the error \<open>e'\<close>: the authentication message when the text of \<open>e\<close> contains
  \<open>invalid_auth\<close>, else the channel-not-found message when it contains
  \<open>channel_not_found\<close>, else the not-in-channel message when it contains
  \<open>not_in_channel\<close>, and else the text of \<open>e\<close> behind the generic prefix. The four
  errors are pairwise distinct.
\<close>

theorem C5_delivery_errors:
  assumes "running x w0 w" "isSlackEnabled w" "slackClient w = Some client"
    and "Data m \<noteq> []" "json_Unmarshal x (Data m) = Inr payload"
    and "sev = (if getString (index payload ''severity'') = [] then ''DEFAULT''
                else getString (index payload ''severity''))"
    and "chooseChannelForSeverity x w sev = c" "c \<noteq> []"
    and "t = buildMessage x sev (getString (index payload ''logName''))
               (getString (index payload ''textPayload'')) payload"
    and "slack_PostMessage x (slack w) client c t = (Inl e, s')"
    and "e' =
       (if Contains (Error e) ''invalid_auth'' then
          Errorf ''slack authentication failed - please check your bot token and permissions''
        else if Contains (Error e) ''channel_not_found'' then
          Errorf ''slack channel not found - please check your channel ID''
        else if Contains (Error e) ''not_in_channel'' then
          Errorf ''slack bot is not in the specified channel - please invite the bot to the channel''
        else Errorf (''failed to send slack message: '' @ Error e))"
  shows "fst (SendMessage x c t w) = Done ([], Some e')
       \<and> fst (HandleLogAlert x m w) = Done (Some e')
       \<and> events (snd (HandleLogAlert x m w)) =
           events w @
             [SendMessageCall c t, PostMessage c t, Log ERROR ''slack send failed'' [AnyError e']]
       \<and> distinct
           [Errorf ''slack authentication failed - please check your bot token and permissions'',
            Errorf ''slack channel not found - please check your channel ID'',
            Errorf ''slack bot is not in the specified channel - please invite the bot to the channel'',
            Errorf (''failed to send slack message: '' @ Error e)]"
proof -
  from running_inv [OF assms(1)] have inv: "logger_inv w" by simp
  have sev: "sev = severityOf payload" by (simp add: assms(6) severityOf_def Let_def)
  have t: "t = messageOf x payload" by (simp add: assms(9) messageOf_def sev)
  have e': "e' = relayError e" by (simp add: assms(11) relayError_def)
  have ch: "chooseChannelForSeverity x w (severityOf payload) = c" using assms(7) by (simp add: sev)
  have pm: "slack_PostMessage x (slack w) client c (messageOf x payload) = (Inl e, s')"
    using assms(10) by (simp add: t)
  have "fst (SendMessage x c t w) = Done ([], Some e')"
    using SM_post [OF assms(2,8,3,10)] by (simp add: e')
  moreover have "fst (HandleLogAlert x m w) = Done (Some e')"
    and "events (snd (HandleLogAlert x m w)) =
           events w @
             [SendMessageCall c t, PostMessage c t, Log ERROR ''slack send failed'' [AnyError e']]"
    unfolding HLA_post [OF inv assms(4,5,2,3) ch assms(8) pm]
    by (simp_all add: e' t events_post)
  moreover have "distinct
           [Errorf ''slack authentication failed - please check your bot token and permissions'',
            Errorf ''slack channel not found - please check your channel ID'',
            Errorf ''slack bot is not in the specified channel - please invite the bot to the channel'',
            Errorf (''failed to send slack message: '' @ Error e)]"
    by (simp add: Errorf_def)
  ultimately show ?thesis by blast
qed

text \<open>
  A concrete run against a Slack that answers \<open>channel_not_found\<close>.
\<close>

theorem C5_delivery_errors_witness:
  "running example_ext_refusing example_boot (init example_ext_refusing example_boot)
   \<and> isSlackEnabled (init example_ext_refusing example_boot)
   \<and> slackClient (init example_ext_refusing example_boot) = Some ''xoxb-test''
   \<and> Data example_msg_scenario \<noteq> []
   \<and> chooseChannelForSeverity example_ext_refusing (init example_ext_refusing example_boot) ''ERROR'' = ''C1''
   \<and> slack_PostMessage example_ext_refusing (slack (init example_ext_refusing example_boot))
        ''xoxb-test'' ''C1'' (''[ERROR] projects/p/logs/l'' @ [CHR 0x0A] @ ''boom'')
       = (Inl (Err ''channel_not_found''), 0)
   \<and> Contains ''channel_not_found'' ''channel_not_found''
   \<and> \<not> Contains ''channel_not_found'' ''invalid_auth''
   \<and> fst (HandleLogAlert example_ext_refusing example_msg_scenario (init example_ext_refusing example_boot))
       = Done (Some (Errorf ''slack channel not found - please check your channel ID''))
   \<and> events (snd (HandleLogAlert example_ext_refusing example_msg_scenario
                    (init example_ext_refusing example_boot))) =
       [AuthTest ''xoxb-test'', Printf ''Slack integration initialized successfully'',
        SendMessageCall ''C1'' (''[ERROR] projects/p/logs/l'' @ [CHR 0x0A] @ ''boom''),
        PostMessage ''C1'' (''[ERROR] projects/p/logs/l'' @ [CHR 0x0A] @ ''boom''),
        Log ERROR ''slack send failed''
          [AnyError (Errorf ''slack channel not found - please check your channel ID'')]]"
proof -
  let ?x = example_ext_refusing
  let ?w = "init example_ext_refusing example_boot"
  let ?payload = "[''severity'' \<mapsto> AnyString ''ERROR'', ''logName'' \<mapsto> AnyString ''projects/p/logs/l'',
                   ''textPayload'' \<mapsto> AnyString ''boom'']"
  let ?t = "''[ERROR] projects/p/logs/l'' @ [CHR 0x0A] @ ''boom''"
  have ne: "Data example_msg_scenario \<noteq> []" by (simp add: example_msg_scenario_def)
  have sev: "''ERROR'' = (if getString (index ?payload ''severity'') = [] then ''DEFAULT''
                else getString (index ?payload ''severity''))"
    by (simp add: index_def)
  have ch: "chooseChannelForSeverity ?x ?w ''ERROR'' = ''C1''"
    by (simp add: choose_table ToUpper_literals ex_started_refusing)
  have c1: "''C1'' \<noteq> []" by simp
  have t: "?t = buildMessage ?x ''ERROR'' (getString (index ?payload ''logName''))
               (getString (index ?payload ''textPayload'')) ?payload"
    by (simp add: buildMessage_def index_def)
  have pm: "slack_PostMessage ?x (slack ?w) ''xoxb-test'' ''C1'' ?t = (Inl (Err ''channel_not_found''), 0)"
    unfolding ex_started_refusing(4) by (simp add: example_ext_refusing_def example_ext_def)
  have k1: "Contains ''channel_not_found'' ''channel_not_found''"
    and k2: "\<not> Contains ''channel_not_found'' ''invalid_auth''"
    by simp_all
  have e': "Errorf ''slack channel not found - please check your channel ID'' =
       (if Contains (Error (Err ''channel_not_found'')) ''invalid_auth'' then
          Errorf ''slack authentication failed - please check your bot token and permissions''
        else if Contains (Error (Err ''channel_not_found'')) ''channel_not_found'' then
          Errorf ''slack channel not found - please check your channel ID''
        else if Contains (Error (Err ''channel_not_found'')) ''not_in_channel'' then
          Errorf ''slack bot is not in the specified channel - please invite the bot to the channel''
        else Errorf (''failed to send slack message: '' @ Error (Err ''channel_not_found'')))"
    using k1 k2 by (simp only: Error.simps if_True if_False)
  from C5_delivery_errors [OF ex_running_refusing ex_started_refusing(1,2) ne
      ex_unmarshal_scenario(2) sev ch c1 t pm e']
  show ?thesis
    using k1 k2 pm ch ne
    by (simp only: ex_running_refusing ex_started_refusing simp_thms append.simps)
qed

text \<open>
  C7. In a running process, two calls of the handler on the same event, one after
  the other: the first call leaves the environment, \<open>isSlackEnabled\<close> and the Slack
  client as they were, and the second call enters \<open>SendMessage\<close> and posts to Slack
  exactly as the first did, with the same destination and the same message; nothing
  is deduplicated.
\<close>

theorem C7_repeat_independent:
  assumes "running x w0 w"
    and "w1 = snd (HandleLogAlert x m w)" "w2 = snd (HandleLogAlert x m w1)"
  shows "environ w1 = environ w \<and> isSlackEnabled w1 = isSlackEnabled w
       \<and> slackClient w1 = slackClient w
       \<and> (\<exists>es1 es2. events w1 = events w @ es1 \<and> events w2 = events w1 @ es2
             \<and> filter isSend es1 = filter isSend es2)"
proof -
  have r1: "running x w0 w1" unfolding assms(2) by (rule running.handled [OF assms(1)])
  from running_inv [OF assms(1)] have inv: "logger_inv w" "client_inv w" by simp_all
  from running_inv [OF r1] have inv1: "logger_inv w1" "client_inv w1" by simp_all
  have f: "environ w1 = environ w" "isSlackEnabled w1 = isSlackEnabled w" "slackClient w1 = slackClient w"
    unfolding assms(2) by (simp_all add: HandleLogAlert_fields)
  have ch: "chooseChannelForSeverity x w1 s = chooseChannelForSeverity x w s" for s
    by (rule choose_cong [OF f(1)])
  from HLA_sends [OF inv, of x m] obtain es1 where
    1: "events w1 = events w @ es1" and
    s1: "filter isSend es1 =
       (if Data m = [] then []
        else case json_Unmarshal x (Data m) of
               Inl err \<Rightarrow> []
             | Inr payload \<Rightarrow>
                 SendMessageCall (chooseChannelForSeverity x w (severityOf payload)) (messageOf x payload)
                 # (if isSlackEnabled w \<and> chooseChannelForSeverity x w (severityOf payload) \<noteq> []
                    then [PostMessage (chooseChannelForSeverity x w (severityOf payload)) (messageOf x payload)]
                    else []))"
    unfolding assms(2) by blast
  from HLA_sends [OF inv1, of x m] obtain es2 where
    2: "events w2 = events w1 @ es2" and
    s2: "filter isSend es2 =
       (if Data m = [] then []
        else case json_Unmarshal x (Data m) of
               Inl err \<Rightarrow> []
             | Inr payload \<Rightarrow>
                 SendMessageCall (chooseChannelForSeverity x w1 (severityOf payload)) (messageOf x payload)
                 # (if isSlackEnabled w1 \<and> chooseChannelForSeverity x w1 (severityOf payload) \<noteq> []
                    then [PostMessage (chooseChannelForSeverity x w1 (severityOf payload)) (messageOf x payload)]
                    else []))"
    unfolding assms(3) by blast
  have "filter isSend es1 = filter isSend es2"
    unfolding s1 s2 ch f(2) ..
  with 1 2 f show ?thesis by blast
qed

text \<open>
  The scenario twice on the concrete run: each call posts the message to \<open>C1\<close>, and
  Slack has counted two posts.
\<close>

theorem C7_repeat_independent_witness:
  "running example_ext example_boot (init example_ext example_boot)
   \<and> filter isSend (drop (length (events (init example_ext example_boot)))
        (events (snd (HandleLogAlert example_ext example_msg_scenario (init example_ext example_boot))))) =
       [SendMessageCall ''C1'' (''[ERROR] projects/p/logs/l'' @ [CHR 0x0A] @ ''boom''),
        PostMessage ''C1'' (''[ERROR] projects/p/logs/l'' @ [CHR 0x0A] @ ''boom'')]
   \<and> filter isSend (drop
        (length (events (snd (HandleLogAlert example_ext example_msg_scenario (init example_ext example_boot)))))
        (events (snd (HandleLogAlert example_ext example_msg_scenario
           (snd (HandleLogAlert example_ext example_msg_scenario (init example_ext example_boot))))))) =
       [SendMessageCall ''C1'' (''[ERROR] projects/p/logs/l'' @ [CHR 0x0A] @ ''boom''),
        PostMessage ''C1'' (''[ERROR] projects/p/logs/l'' @ [CHR 0x0A] @ ''boom'')]
   \<and> slack (snd (HandleLogAlert example_ext example_msg_scenario
           (snd (HandleLogAlert example_ext example_msg_scenario (init example_ext example_boot))))) = 2"
proof -
  let ?x = example_ext
  let ?m = example_msg_scenario
  let ?w = "init example_ext example_boot"
  let ?w1 = "snd (HandleLogAlert ?x ?m ?w)"
  let ?w2 = "snd (HandleLogAlert ?x ?m ?w1)"
  let ?t = "''[ERROR] projects/p/logs/l'' @ [CHR 0x0A] @ ''boom''"
  have ne: "Data ?m \<noteq> []" by (simp add: example_msg_scenario_def)
  have r1: "running ?x example_boot ?w1" by (rule running.handled [OF ex_running])
  from running_inv [OF ex_running] have inv: "logger_inv ?w" by simp
  from running_inv [OF r1] have inv1: "logger_inv ?w1" by simp
  have ch: "chooseChannelForSeverity ?x ?w ''ERROR'' = ''C1''"
    by (simp add: choose_table ToUpper_literals ex_started)
  have f1: "isSlackEnabled ?w1" "slackClient ?w1 = Some ''xoxb-test''" "environ ?w1 = environ ?w"
    by (simp_all add: HandleLogAlert_fields ex_started)
  have ch1: "chooseChannelForSeverity ?x ?w1 ''ERROR'' = ''C1''"
    unfolding choose_cong [OF f1(3)] by (rule ch)
  have c1: "''C1'' \<noteq> []" by simp
  note a = HLA_post_ok [OF inv ne ex_unmarshal_scenario(1) ex_started(1,2), of "''C1''",
      unfolded ex_scenario_payload, OF ch c1 ex_post]
  note b = HLA_post_ok [OF inv1 ne ex_unmarshal_scenario(1) f1(1,2), of "''C1''",
      unfolded ex_scenario_payload, OF ch1 c1 ex_post]
  have s2: "slack ?w2 = 2" unfolding b(3) a(3) ex_started(4) by simp
  from C7_repeat_independent [OF ex_running refl refl, of ?m]
  obtain es1 es2 where e: "events ?w1 = events ?w @ es1" "events ?w2 = events ?w1 @ es2"
    "filter isSend es1 = filter isSend es2" by blast
  from e(1) a(2) have es1: "es1 = [SendMessageCall ''C1'' ?t, PostMessage ''C1'' ?t,
      Log INFO ''slack message sent''
        [AnyMap [''ts'' \<mapsto> AnyString ''1700000000.000100'', ''channel'' \<mapsto> AnyString ''C1'']]]"
    by simp
  have d1: "drop (length (events ?w)) (events ?w1) = es1" by (simp add: e(1))
  have d2: "drop (length (events ?w1)) (events ?w2) = es2" by (simp add: e(2))
  have "filter isSend es1 = [SendMessageCall ''C1'' ?t, PostMessage ''C1'' ?t]"
    unfolding es1 by simp
  with e(3) show ?thesis unfolding d1 d2 s2 using ex_running by simp
qed

text \<open>
  C8. In a running process, for every decoded payload the message handed to
  \<open>SendMessage\<close>, and posted to Slack when Slack is enabled and a destination resolves,
  is the line \<open>[severity] logName\<close>, with \<open>DEFAULT\<close> for an empty severity; then, when
  the text payload is not empty, a newline and the text payload; then, when
  \<open>jsonPayload\<close> is present, not \<open>nil\<close> and marshals, a newline, \<open>json: \<close> and the
  marshalled value.
\<close>

theorem C8_message_format:
  assumes "running x w0 w" "Data m \<noteq> []" "json_Unmarshal x (Data m) = Inr payload"
    and "sev = (if getString (index payload ''severity'') = [] then ''DEFAULT''
                else getString (index payload ''severity''))"
    and "message =
       ''['' @ sev @ ''] '' @ getString (index payload ''logName'')
       @ (if getString (index payload ''textPayload'') \<noteq> []
          then [CHR 0x0A] @ getString (index payload ''textPayload'') else [])
       @ (case payload ''jsonPayload'' of
            None \<Rightarrow> []
          | Some jp \<Rightarrow>
              (if jp = AnyNil then []
               else (case json_Marshal x jp of
                       Inr compact \<Rightarrow> [CHR 0x0A] @ ''json: '' @ compact
                     | Inl err \<Rightarrow> [])))"
    and "c = chooseChannelForSeverity x w sev"
  shows "\<exists>es. events (snd (HandleLogAlert x m w)) = events w @ es
            \<and> filter isSend es =
                SendMessageCall c message
                # (if isSlackEnabled w \<and> c \<noteq> [] then [PostMessage c message] else [])"
proof -
  from running_inv [OF assms(1)] have inv: "logger_inv w" "client_inv w" by simp_all
  have sev: "sev = severityOf payload" by (simp add: assms(4) severityOf_def Let_def)
  have msg: "message = messageOf x payload"
    unfolding messageOf_form assms(5) assms(4) ..
  from HLA_sends [OF inv, of x m] show ?thesis
    using assms(2,3) unfolding msg sev assms(6) by (simp split del: if_split)
qed

text \<open>
  The concrete run on the scenario with a structured payload.
\<close>

theorem C8_message_format_witness:
  \<open>running example_ext example_boot (init example_ext example_boot)
   \<and> Data example_msg_structured \<noteq> []
   \<and> isSlackEnabled (init example_ext example_boot)
   \<and> chooseChannelForSeverity example_ext (init example_ext example_boot) ''ERROR'' = ''C1''
   \<and> (\<exists>es. events (snd (HandleLogAlert example_ext example_msg_structured (init example_ext example_boot)))
              = events (init example_ext example_boot) @ es
          \<and> filter isSend es =
              [SendMessageCall ''C1''
                 (''[ERROR] projects/p/logs/l'' @ [CHR 0x0A] @ ''boom'' @ [CHR 0x0A] @ ''json: "details"''),
               PostMessage ''C1''
                 (''[ERROR] projects/p/logs/l'' @ [CHR 0x0A] @ ''boom'' @ [CHR 0x0A] @ ''json: "details"'')])\<close>
proof -
  let ?x = example_ext
  let ?w = "init example_ext example_boot"
  let ?payload = "[''severity'' \<mapsto> AnyString ''ERROR'', ''logName'' \<mapsto> AnyString ''projects/p/logs/l'',
          ''textPayload'' \<mapsto> AnyString ''boom'', ''jsonPayload'' \<mapsto> AnyString ''details'']"
  have ne: "Data example_msg_structured \<noteq> []" by (simp add: example_msg_structured_def)
  have sev: "''ERROR'' = (if getString (index ?payload ''severity'') = [] then ''DEFAULT''
                else getString (index ?payload ''severity''))"
    by (simp add: index_def)
  have ch: "chooseChannelForSeverity ?x ?w ''ERROR'' = ''C1''"
    by (simp add: choose_table ToUpper_literals ex_started)
  have msg: \<open>''[ERROR] projects/p/logs/l'' @ [CHR 0x0A] @ ''boom'' @ [CHR 0x0A] @ ''json: "details"'' =
       ''['' @ ''ERROR'' @ ''] '' @ getString (index ?payload ''logName'')
       @ (if getString (index ?payload ''textPayload'') \<noteq> []
          then [CHR 0x0A] @ getString (index ?payload ''textPayload'') else [])
       @ (case ?payload ''jsonPayload'' of
            None \<Rightarrow> []
          | Some jp \<Rightarrow>
              (if jp = AnyNil then []
               else (case json_Marshal ?x jp of
                       Inr compact \<Rightarrow> [CHR 0x0A] @ ''json: '' @ compact
                     | Inl err \<Rightarrow> [])))\<close>
    by (simp add: index_def example_ext_def)
  from C8_message_format [OF ex_running ne ex_unmarshal_structured sev msg ch [symmetric]]
  show ?thesis
    by (simp add: ex_running ne ex_started(1) ch split del: if_split)
qed

text \<open>
  C9. In a running process, for every decoded payload whose \<open>severity\<close> is absent,
  \<open>nil\<close> or not a string: the extracted severity is empty, the message starts with
  \<open>[DEFAULT] \<close>, and the destination handed to \<open>SendMessage\<close> is the default
  destination. Extraction never fails: for every key it gives the string stored
  under the key, and the empty string when the key is absent or holds no string.
\<close>

theorem C9_default_severity:
  assumes "running x w0 w" "Data m \<noteq> []" "json_Unmarshal x (Data m) = Inr payload"
    and "\<forall>s. payload ''severity'' \<noteq> Some (AnyString s)"
  shows "getString (index payload ''severity'') = []
       \<and> chooseChannelForSeverity x w ''DEFAULT'' = Getenv w ''SLACK_DEFAULT_CHANNEL_ID''
       \<and> (\<exists>es rest tail. events (snd (HandleLogAlert x m w)) = events w @ es
             \<and> filter isSend es =
                 SendMessageCall (Getenv w ''SLACK_DEFAULT_CHANNEL_ID'') (''[DEFAULT] '' @ rest) # tail)
       \<and> (\<forall>k. getString (index payload k) =
                 (case payload k of Some (AnyString s) \<Rightarrow> s | _ \<Rightarrow> []))"
proof -
  from running_inv [OF assms(1)] have inv: "logger_inv w" "client_inv w" by simp_all
  have g: "getString (index payload ''severity'') = []"
    using assms(4) by (simp add: getString_index split: option.splits any.splits)
  then have sev: "severityOf payload = ''DEFAULT''" by (simp add: severityOf_def)
  obtain rest where msg: "messageOf x payload = ''[DEFAULT] '' @ rest"
    unfolding messageOf_form g by simp
  have "\<exists>es. events (snd (HandleLogAlert x m w)) = events w @ es \<and>
     filter isSend es =
       SendMessageCall (chooseChannelForSeverity x w (severityOf payload)) (messageOf x payload)
       # (if isSlackEnabled w \<and> chooseChannelForSeverity x w (severityOf payload) \<noteq> []
          then [PostMessage (chooseChannelForSeverity x w (severityOf payload)) (messageOf x payload)]
          else [])"
    using HLA_sends [OF inv, of x m] assms(2,3) by (simp split del: if_split)
  then have "\<exists>es rest tail. events (snd (HandleLogAlert x m w)) = events w @ es
             \<and> filter isSend es =
                 SendMessageCall (Getenv w ''SLACK_DEFAULT_CHANNEL_ID'') (''[DEFAULT] '' @ rest) # tail"
    unfolding sev msg choose_DEFAULT by blast
  with g show ?thesis by (simp add: choose_DEFAULT getString_index)
qed

text \<open>
  The concrete run on the empty object, where no default destination is set.
\<close>

theorem C9_default_severity_witness:
  "running example_ext example_boot (init example_ext example_boot)
   \<and> Data example_msg_object \<noteq> []
   \<and> getString (index Map.empty ''severity'') = []
   \<and> chooseChannelForSeverity example_ext (init example_ext example_boot) ''DEFAULT'' = []
   \<and> (\<exists>es rest tail.
         events (snd (HandleLogAlert example_ext example_msg_object (init example_ext example_boot)))
           = events (init example_ext example_boot) @ es
         \<and> filter isSend es = SendMessageCall [] (''[DEFAULT] '' @ rest) # tail)"
proof -
  have ne: "Data example_msg_object \<noteq> []" by (simp add: example_msg_object_def)
  have a: "\<forall>s. Map.empty ''severity'' \<noteq> Some (AnyString s)" by simp
  from C9_default_severity [OF ex_running ne ex_unmarshal_object a]
  show ?thesis
    unfolding ex_started(7) using ex_running ne by blast
qed

text \<open>
  C10. When \<open>init\<close> found no bot token, or a token without the prefix \<open>xoxb-\<close>, or
  the authentication test failed, then in every later state of the running process
  Slack is not enabled, and every call of \<open>SendMessage\<close>, whatever the destination and
  the message, returns the error \<open>slack is not properly configured\<close>; it adds no
  event but the record of the call, so nothing is posted, and the state of Slack is
  unchanged.
\<close>

theorem C10_disabled_send:
  assumes "running x w0 w"
    and "tok = Getenv (w0\<lparr>environ := godotenv_Load x (environ w0)\<rparr>) ''SLACK_BOT_TOKEN''"
    and "tok = [] \<or> \<not> HasPrefix tok ''xoxb-'' \<or> fst (slack_AuthTest x (slack w0) tok) \<noteq> None"
  shows "\<not> isSlackEnabled w
       \<and> fst (SendMessage x channelID message w) =
           Done ([], Some (Errorf ''slack is not properly configured''))
       \<and> events (snd (SendMessage x channelID message w)) =
           events w @ [SendMessageCall channelID message]
       \<and> slack (snd (SendMessage x channelID message w)) = slack w"
proof -
  from running_inv [OF assms(1)] have "isSlackEnabled w = isSlackEnabled (init x w0)" by simp
  with init_disabled [OF assms(2,3)] have off: "\<not> isSlackEnabled w" by simp
  show ?thesis
    unfolding SM_disabled [OF off] using off by (simp add: emit_fields)
qed

text \<open>
  Three concrete runs, one for each way \<open>init\<close> can fail; the first one sends after
  a call of the handler.
\<close>

theorem C10_disabled_send_witness:
  "running example_ext example_boot_unset
     (snd (HandleLogAlert example_ext example_msg_scenario (init example_ext example_boot_unset)))
   \<and> fst (SendMessage example_ext ''C1'' ''hello''
        (snd (HandleLogAlert example_ext example_msg_scenario (init example_ext example_boot_unset))))
       = Done ([], Some (Errorf ''slack is not properly configured''))
   \<and> running example_ext example_boot_badtoken (init example_ext example_boot_badtoken)
   \<and> \<not> HasPrefix ''abc'' ''xoxb-''
   \<and> fst (SendMessage example_ext ''C1'' ''hello'' (init example_ext example_boot_badtoken))
       = Done ([], Some (Errorf ''slack is not properly configured''))
   \<and> running example_ext_unauthorized example_boot (init example_ext_unauthorized example_boot)
   \<and> HasPrefix ''xoxb-test'' ''xoxb-''
   \<and> fst (slack_AuthTest example_ext_unauthorized (slack example_boot) ''xoxb-test'')
       = Some (Err ''invalid_auth'')
   \<and> fst (SendMessage example_ext_unauthorized ''C1'' ''hello'' (init example_ext_unauthorized example_boot))
       = Done ([], Some (Errorf ''slack is not properly configured''))
   \<and> events (snd (SendMessage example_ext_unauthorized ''C1'' ''hello''
        (init example_ext_unauthorized example_boot)))
       = events (init example_ext_unauthorized example_boot) @ [SendMessageCall ''C1'' ''hello'']"
proof -
  have r1: "running example_ext example_boot_unset
     (snd (HandleLogAlert example_ext example_msg_scenario (init example_ext example_boot_unset)))"
    by (rule running.handled [OF ex_running_unset])
  have h: "\<not> HasPrefix ''abc'' ''xoxb-''" "HasPrefix ''xoxb-test'' ''xoxb-''"
    by (simp_all add: HasPrefix_def)
  have au: "fst (slack_AuthTest example_ext_unauthorized (slack example_boot) ''xoxb-test'')
       = Some (Err ''invalid_auth'')"
    by (simp add: example_ext_unauthorized_def)
  have d1: "[] = [] \<or> \<not> HasPrefix [] ''xoxb-''
      \<or> fst (slack_AuthTest example_ext (slack example_boot_unset) []) \<noteq> None"
    by simp
  have d2: "''abc'' = [] \<or> \<not> HasPrefix ''abc'' ''xoxb-''
      \<or> fst (slack_AuthTest example_ext (slack example_boot_badtoken) ''abc'') \<noteq> None"
    using h(1) by simp
  have d3: "''xoxb-test'' = [] \<or> \<not> HasPrefix ''xoxb-test'' ''xoxb-''
      \<or> fst (slack_AuthTest example_ext_unauthorized (slack example_boot) ''xoxb-test'') \<noteq> None"
    using au by simp
  from C10_disabled_send [OF r1 ex_tokens(1) [symmetric] d1, of "''C1''" "''hello''"]
    C10_disabled_send [OF ex_running_badtoken ex_tokens(2) [symmetric] d2, of "''C1''" "''hello''"]
    C10_disabled_send [OF ex_running_unauthorized ex_tokens(3) [symmetric] d3, of "''C1''" "''hello''"]
  show ?thesis
    using r1 ex_running_badtoken ex_running_unauthorized h au by blast
qed

end
